theory Spec2Isabelle
  imports Main
begin

section \<open>The collaborators: core controllers and the reactive runtime\<close>

text \<open>
  The package \<^verbatim>\<open>src/index.ts\<close> defines nine primitives. Each one creates signals,
  constructs one controller of the core package, registers an effect that subscribes a
  callback to the controller, and returns accessors and action closures.

  The controllers (\<^verbatim>\<open>@jamwidgets/core\<close>) and the reactive runtime (\<^verbatim>\<open>solid-js\<close>) are
  external packages. They enter the model as follows.
  \<^item> A controller class is a parameter: a record of functions over an opaque hidden
    state \<open>'c\<close>. A method call returns the notifications the controller pushes while the
    call runs (each with the hidden state the controller is in at that moment) and the
    hidden state after the call.
  \<^item> The contract of \<^verbatim>\<open>subscribe\<close> is written out: the callback joins the listeners of
    the controller, every notification runs every listener, and the returned function
    removes that listener again.
  \<^item> The contract of the runtime is written out: the body of an effect runs when the
    runtime schedules it, the functions given to \<^verbatim>\<open>onCleanup\<close> run before the effect
    runs again and when the owner is disposed, and a disposed effect never runs again.
  \<^item> \<^verbatim>\<open>async\<close>/\<^verbatim>\<open>await\<close> is not modelled: a call is one step, and what a controller
    reports later is a notification event of its own. Calls of the controller return;
    no exception is modelled.
  \<^item> Values are only passed on, never computed with: a \<^verbatim>\<open>number\<close> is an integer, an
    \<^verbatim>\<open>Error\<close> is its message, \<^verbatim>\<open>T | null\<close> and an optional field are \<open>T option\<close>, and
    the types the core package declares for comments, polls and announcements are
    type parameters.
\<close>

type_synonym ControllerStatus = string
type_synonym Error = string
type_synonym number = int

text \<open>What the primitive does to its controller, in order: the log of an instance.\<close>

datatype 'k call = New | Subscribe nat | Unsubscribe nat | Method 'k

record ('cfg, 'a, 'c, 's, 'k) controller =
  construct :: "'cfg \<Rightarrow> 'a \<Rightarrow> 'c"
  on_subscribe :: "'c \<Rightarrow> ('c \<times> 's) list \<times> 'c"
  on_call :: "'k \<Rightarrow> 'c \<Rightarrow> ('c \<times> 's) list \<times> 'c"

text \<open>
  One instance of a primitive: the controller it owns (hidden state, listeners, log of
  calls), the cleanups its effect has registered, and the values of its signals.
  A listener is the callback handed to \<^verbatim>\<open>subscribe\<close>, with the number that identifies
  its unsubscribe function. The callback receives the hidden state of the controller
  because the source's closure can call the controller while it runs.
\<close>

record ('c, 's, 'k, 'g) world =
  hidden :: 'c
  listeners :: "(nat \<times> ('c \<Rightarrow> 's \<Rightarrow> 'g \<Rightarrow> 'g)) list"
  fresh :: nat
  calls :: "'k call list"
  cleanups :: "nat list"
  disposed :: bool
  signals :: 'g

definition notify :: "'s \<Rightarrow> ('c, 's, 'k, 'g) world \<Rightarrow> ('c, 's, 'k, 'g) world" where
  "notify s w = w\<lparr>signals := foldl (\<lambda>g l. snd l (hidden w) s g) (signals w) (listeners w)\<rparr>"

fun deliver :: "('c \<times> 's) list \<Rightarrow> ('c, 's, 'k, 'g) world \<Rightarrow> ('c, 's, 'k, 'g) world" where
  "deliver [] w = w"
| "deliver (p # ps) w = deliver ps (notify (snd p) (w\<lparr>hidden := fst p\<rparr>))"

text \<open>A notification the controller pushes on its own (a request has completed).\<close>

definition controller_push :: "'c \<Rightarrow> 's \<Rightarrow> ('c, 's, 'k, 'g) world \<Rightarrow> ('c, 's, 'k, 'g) world" where
  "controller_push c s w = notify s (w\<lparr>hidden := c\<rparr>)"

definition controller_call ::
  "('cfg, 'a, 'c, 's, 'k, 'z) controller_scheme \<Rightarrow> 'k \<Rightarrow> ('c, 's, 'k, 'g) world \<Rightarrow> ('c, 's, 'k, 'g) world" where
  "controller_call K k w =
     (case on_call K k (hidden w) of
        (ps, c') \<Rightarrow> (deliver ps (w\<lparr>calls := calls w @ [Method k]\<rparr>))\<lparr>hidden := c'\<rparr>)"

text \<open>\<^verbatim>\<open>controller.subscribe(cb)\<close>: returns the unsubscribe function (its number).\<close>

definition controller_subscribe ::
  "('cfg, 'a, 'c, 's, 'k, 'z) controller_scheme \<Rightarrow> ('c \<Rightarrow> 's \<Rightarrow> 'g \<Rightarrow> 'g) \<Rightarrow>
   ('c, 's, 'k, 'g) world \<Rightarrow> nat \<times> ('c, 's, 'k, 'g) world" where
  "controller_subscribe K cb w =
     (case on_subscribe K (hidden w) of
        (ps, c') \<Rightarrow>
          (fresh w,
           (deliver ps (w\<lparr>listeners := listeners w @ [(fresh w, cb)],
                           fresh := Suc (fresh w),
                           calls := calls w @ [Subscribe (fresh w)]\<rparr>))\<lparr>hidden := c'\<rparr>))"

definition controller_unsubscribe :: "nat \<Rightarrow> ('c, 's, 'k, 'g) world \<Rightarrow> ('c, 's, 'k, 'g) world" where
  "controller_unsubscribe i w =
     w\<lparr>listeners := filter (\<lambda>l. fst l \<noteq> i) (listeners w),
       calls := calls w @ [Unsubscribe i]\<rparr>"

definition onCleanup :: "nat \<Rightarrow> ('c, 's, 'k, 'g) world \<Rightarrow> ('c, 's, 'k, 'g) world" where
  "onCleanup i w = w\<lparr>cleanups := cleanups w @ [i]\<rparr>"

text \<open>The runtime runs the registered cleanups, last registered first, and forgets them.\<close>

definition runCleanups :: "('c, 's, 'k, 'g) world \<Rightarrow> ('c, 's, 'k, 'g) world" where
  "runCleanups w =
     (foldl (\<lambda>v i. controller_unsubscribe i v) w (rev (cleanups w)))\<lparr>cleanups := []\<rparr>"

text \<open>One run of an effect created with \<^verbatim>\<open>createEffect\<close>, and the disposal of its owner.\<close>

definition runEffect ::
  "(('c, 's, 'k, 'g) world \<Rightarrow> ('c, 's, 'k, 'g) world) \<Rightarrow> ('c, 's, 'k, 'g) world \<Rightarrow> ('c, 's, 'k, 'g) world" where
  "runEffect body w = (if disposed w then w else body (runCleanups w))"

definition dispose :: "('c, 's, 'k, 'g) world \<Rightarrow> ('c, 's, 'k, 'g) world" where
  "dispose w = (runCleanups w)\<lparr>disposed := True\<rparr>"

text \<open>
  What can happen to an instance after its creation: the runtime runs the effect or
  disposes the owner, the controller pushes a notification, the user calls an action
  (every action is one method call, see the primitives below).
\<close>

datatype ('c, 's, 'k) event = Run | Dispose | Push 'c 's | Call 'k

fun step ::
  "(('c, 's, 'k, 'g) world \<Rightarrow> ('c, 's, 'k, 'g) world) \<Rightarrow> ('cfg, 'a, 'c, 's, 'k, 'z) controller_scheme \<Rightarrow>
   ('c, 's, 'k) event \<Rightarrow> ('c, 's, 'k, 'g) world \<Rightarrow> ('c, 's, 'k, 'g) world" where
  "step body K Run w = runEffect body w"
| "step body K Dispose w = dispose w"
| "step body K (Push c s) w = controller_push c s w"
| "step body K (Call k) w = controller_call K k w"

definition exec ::
  "(('c, 's, 'k, 'g) world \<Rightarrow> ('c, 's, 'k, 'g) world) \<Rightarrow> ('cfg, 'a, 'c, 's, 'k, 'z) controller_scheme \<Rightarrow>
   ('c, 's, 'k) event list \<Rightarrow> ('c, 's, 'k, 'g) world \<Rightarrow> ('c, 's, 'k, 'g) world" where
  "exec body K es w = foldl (\<lambda>v e. step body K e v) w es"

text \<open>Readers of the log.\<close>

definition constructed :: "'k call list \<Rightarrow> nat" where
  "constructed cs = length (filter (\<lambda>c. case c of New \<Rightarrow> True | _ \<Rightarrow> False) cs)"

definition subscribed_ids :: "'k call list \<Rightarrow> nat list" where
  "subscribed_ids cs = concat (map (\<lambda>c. case c of Subscribe i \<Rightarrow> [i] | _ \<Rightarrow> []) cs)"

definition unsubscribed_ids :: "'k call list \<Rightarrow> nat list" where
  "unsubscribed_ids cs = concat (map (\<lambda>c. case c of Unsubscribe i \<Rightarrow> [i] | _ \<Rightarrow> []) cs)"

definition method_calls :: "'k call list \<Rightarrow> 'k list" where
  "method_calls cs = concat (map (\<lambda>c. case c of Method k \<Rightarrow> [k] | _ \<Rightarrow> []) cs)"

text \<open>
  The common shape of the nine effect bodies: subscribe, make the optional call,
  register the unsubscribe function. Each primitive's effect is written out from the
  source below and shown to have this shape.
\<close>

definition effect_shape ::
  "('cfg, 'a, 'c, 's, 'k, 'z) controller_scheme \<Rightarrow> ('c \<Rightarrow> 's \<Rightarrow> 'g \<Rightarrow> 'g) \<Rightarrow> 'k option \<Rightarrow>
   ('c, 's, 'k, 'g) world \<Rightarrow> ('c, 's, 'k, 'g) world" where
  "effect_shape K cb auto w =
     (case controller_subscribe K cb w of
        (unsub, w1) \<Rightarrow>
          onCleanup unsub (case auto of None \<Rightarrow> w1 | Some k \<Rightarrow> controller_call K k w1))"


text \<open>
  \<^verbatim>\<open>new XController(config, arg)\<close>: the constructor of the class gives the hidden state
  of the controller the instance owns, and the log records the construction. The
  instance starts with the signals \<open>g\<close> created before, nothing subscribed and nothing
  to clean up.
\<close>

definition controller_new ::
  "('cfg, 'a, 'c, 's, 'k, 'z) controller_scheme \<Rightarrow> 'cfg \<Rightarrow> 'a \<Rightarrow> 'g \<Rightarrow> ('c, 's, 'k, 'g) world" where
  "controller_new K config arg g =
     \<lparr>hidden = construct K config arg, listeners = [], fresh = 0, calls = [New],
      cleanups = [], disposed = False, signals = g\<rparr>"

text \<open>
  The instance around a controller just constructed in hidden state \<open>c\<close> (used in the
  proofs).
\<close>

definition new_instance :: "'c \<Rightarrow> 'g \<Rightarrow> ('c, 's, 'k, 'g) world" where
  "new_instance c g =
     \<lparr>hidden = c, listeners = [], fresh = 0, calls = [New], cleanups = [],
      disposed = False, signals = g\<rparr>"

section \<open>Configuration types\<close>

text \<open>
  \<^verbatim>\<open>OptionalSiteKey<JamWidgetsConfig>\<close>: the site key is optional. The other fields of
  the core's configuration type are only handed to \<^verbatim>\<open>resolveConfig\<close>, which is a function
  of the core package and a parameter here.
\<close>

record OptionalSiteKey =
  siteKey :: "string option"

type_synonym CreateSubscribeOptions = OptionalSiteKey

record CreateFormOptions = OptionalSiteKey +
  formSlug :: string

record CreateReactionsOptions = OptionalSiteKey +
  contentId :: string
  autoFetch :: "bool option"

record CreateCommentsOptions = OptionalSiteKey +
  contentId :: string
  autoFetch :: "bool option"

type_synonym CreateWaitlistOptions = OptionalSiteKey

record CreateViewsOptions = OptionalSiteKey +
  pageId :: string
  autoRecord :: "bool option"

type_synonym CreateFeedbackOptions = OptionalSiteKey

record CreatePollOptions = OptionalSiteKey +
  slug :: string
  autoFetch :: "bool option"

record CreateAnnouncementsOptions = OptionalSiteKey +
  autoFetch :: "bool option"

section \<open>createSubscribe\<close>

text \<open>The fields of the core's \<^verbatim>\<open>SubscribeState\<close> that the callback reads.\<close>

record SubscribeState =
  status :: ControllerStatus
  message :: "string option"
  error :: "Error option"

text \<open>The methods of \<^verbatim>\<open>SubscribeController\<close> that the primitive calls.\<close>

datatype SubscribeController = submit string | reset

text \<open>The signals, read through the accessors of \<^verbatim>\<open>CreateSubscribeReturn\<close>.\<close>

record CreateSubscribeReturn =
  status :: ControllerStatus
  message :: "string option"
  error :: "Error option"

type_synonym 'c SubscribeWorld = "('c, SubscribeState, SubscribeController, CreateSubscribeReturn) world"

definition createSubscribe_callback ::
  "'c \<Rightarrow> SubscribeState \<Rightarrow> CreateSubscribeReturn \<Rightarrow> CreateSubscribeReturn" where
  "createSubscribe_callback c state g =
     g\<lparr>CreateSubscribeReturn.status := SubscribeState.status state,
       CreateSubscribeReturn.message := SubscribeState.message state,
       CreateSubscribeReturn.error := SubscribeState.error state\<rparr>"

definition createSubscribe_effect ::
  "('cfg, unit, 'c, SubscribeState, SubscribeController, 'z) controller_scheme \<Rightarrow>
   'c SubscribeWorld \<Rightarrow> 'c SubscribeWorld" where
  "createSubscribe_effect K w =
     (case controller_subscribe K createSubscribe_callback w of
        (unsubscribe, w1) \<Rightarrow> onCleanup unsubscribe w1)"

definition createSubscribe ::
  "(CreateSubscribeOptions \<Rightarrow> 'cfg) \<Rightarrow>
   ('cfg, unit, 'c, SubscribeState, SubscribeController, 'z) controller_scheme \<Rightarrow>
   CreateSubscribeOptions \<Rightarrow> 'c SubscribeWorld" where
  "createSubscribe resolveConfig K options =
     (let config = resolveConfig options
      in controller_new K config ()
           \<lparr>CreateSubscribeReturn.status = ''idle'',
            CreateSubscribeReturn.message = None,
            CreateSubscribeReturn.error = None\<rparr>)"

definition createSubscribe_subscribe ::
  "('cfg, unit, 'c, SubscribeState, SubscribeController, 'z) controller_scheme \<Rightarrow>
   string \<Rightarrow> 'c SubscribeWorld \<Rightarrow> 'c SubscribeWorld" where
  "createSubscribe_subscribe K email w = controller_call K (SubscribeController.submit email) w"

definition createSubscribe_reset ::
  "('cfg, unit, 'c, SubscribeState, SubscribeController, 'z) controller_scheme \<Rightarrow>
   'c SubscribeWorld \<Rightarrow> 'c SubscribeWorld" where
  "createSubscribe_reset K w = controller_call K SubscribeController.reset w"

definition createSubscribe_run ::
  "(CreateSubscribeOptions \<Rightarrow> 'cfg) \<Rightarrow>
   ('cfg, unit, 'c, SubscribeState, SubscribeController, 'z) controller_scheme \<Rightarrow>
   CreateSubscribeOptions \<Rightarrow> ('c, SubscribeState, SubscribeController) event list \<Rightarrow>
   'c SubscribeWorld" where
  "createSubscribe_run resolveConfig K options es =
     exec (createSubscribe_effect K) K es (createSubscribe resolveConfig K options)"

section \<open>createForm\<close>

record FormState =
  status :: ControllerStatus
  message :: "string option"
  error :: "Error option"

text \<open>\<^verbatim>\<open>Record<string, unknown>\<close> is a map from strings to values of any type \<open>'v\<close>.\<close>

datatype 'v FormController = submit "string \<rightharpoonup> 'v" | reset

record CreateFormReturn =
  status :: ControllerStatus
  message :: "string option"
  error :: "Error option"

type_synonym ('c, 'v) FormWorld = "('c, FormState, 'v FormController, CreateFormReturn) world"

definition createForm_callback :: "'c \<Rightarrow> FormState \<Rightarrow> CreateFormReturn \<Rightarrow> CreateFormReturn" where
  "createForm_callback c state g =
     g\<lparr>CreateFormReturn.status := FormState.status state,
       CreateFormReturn.message := FormState.message state,
       CreateFormReturn.error := FormState.error state\<rparr>"

definition createForm_effect ::
  "('cfg, string, 'c, FormState, 'v FormController, 'z) controller_scheme \<Rightarrow>
   ('c, 'v) FormWorld \<Rightarrow> ('c, 'v) FormWorld" where
  "createForm_effect K w =
     (case controller_subscribe K createForm_callback w of
        (unsubscribe, w1) \<Rightarrow> onCleanup unsubscribe w1)"

definition createForm ::
  "(CreateFormOptions \<Rightarrow> 'cfg) \<Rightarrow>
   ('cfg, string, 'c, FormState, 'v FormController, 'z) controller_scheme \<Rightarrow>
   CreateFormOptions \<Rightarrow> ('c, 'v) FormWorld" where
  "createForm resolveConfig K options =
     (let config = resolveConfig options
      in controller_new K config (formSlug options)
           \<lparr>CreateFormReturn.status = ''idle'',
            CreateFormReturn.message = None,
            CreateFormReturn.error = None\<rparr>)"

definition createForm_submit ::
  "('cfg, string, 'c, FormState, 'v FormController, 'z) controller_scheme \<Rightarrow>
   (string \<rightharpoonup> 'v) \<Rightarrow> ('c, 'v) FormWorld \<Rightarrow> ('c, 'v) FormWorld" where
  "createForm_submit K data w = controller_call K (FormController.submit data) w"

definition createForm_reset ::
  "('cfg, string, 'c, FormState, 'v FormController, 'z) controller_scheme \<Rightarrow>
   ('c, 'v) FormWorld \<Rightarrow> ('c, 'v) FormWorld" where
  "createForm_reset K w = controller_call K FormController.reset w"

definition createForm_run ::
  "(CreateFormOptions \<Rightarrow> 'cfg) \<Rightarrow>
   ('cfg, string, 'c, FormState, 'v FormController, 'z) controller_scheme \<Rightarrow>
   CreateFormOptions \<Rightarrow> ('c, FormState, 'v FormController) event list \<Rightarrow> ('c, 'v) FormWorld" where
  "createForm_run resolveConfig K options es =
     exec (createForm_effect K) K es (createForm resolveConfig K options)"

section \<open>createReactions\<close>

record ReactionsState =
  counts :: "string \<rightharpoonup> number"
  userReactions :: "string list"
  status :: ControllerStatus
  error :: "Error option"

datatype ReactionsController = fetch | add string | remove string

record CreateReactionsReturn =
  counts :: "string \<rightharpoonup> number"
  userReactions :: "string list"
  status :: ControllerStatus
  error :: "Error option"

type_synonym 'c ReactionsWorld =
  "('c, ReactionsState, ReactionsController, CreateReactionsReturn) world"

definition createReactions_callback ::
  "'c \<Rightarrow> ReactionsState \<Rightarrow> CreateReactionsReturn \<Rightarrow> CreateReactionsReturn" where
  "createReactions_callback c state g =
     g\<lparr>CreateReactionsReturn.counts := ReactionsState.counts state,
       CreateReactionsReturn.userReactions := ReactionsState.userReactions state,
       CreateReactionsReturn.status := ReactionsState.status state,
       CreateReactionsReturn.error := ReactionsState.error state\<rparr>"

definition createReactions_effect ::
  "('cfg, string, 'c, ReactionsState, ReactionsController, 'z) controller_scheme \<Rightarrow>
   CreateReactionsOptions \<Rightarrow> 'c ReactionsWorld \<Rightarrow> 'c ReactionsWorld" where
  "createReactions_effect K options w =
     (case controller_subscribe K createReactions_callback w of
        (unsubscribe, w1) \<Rightarrow>
          onCleanup unsubscribe
            (if CreateReactionsOptions.autoFetch options \<noteq> Some False
             then controller_call K ReactionsController.fetch w1
             else w1))"

definition createReactions ::
  "(CreateReactionsOptions \<Rightarrow> 'cfg) \<Rightarrow>
   ('cfg, string, 'c, ReactionsState, ReactionsController, 'z) controller_scheme \<Rightarrow>
   CreateReactionsOptions \<Rightarrow> 'c ReactionsWorld" where
  "createReactions resolveConfig K options =
     (let config = resolveConfig options
      in controller_new K config (CreateReactionsOptions.contentId options)
           \<lparr>CreateReactionsReturn.counts = Map.empty,
            CreateReactionsReturn.userReactions = [],
            CreateReactionsReturn.status = ''idle'',
            CreateReactionsReturn.error = None\<rparr>)"

definition createReactions_addReaction ::
  "('cfg, string, 'c, ReactionsState, ReactionsController, 'z) controller_scheme \<Rightarrow>
   string \<Rightarrow> 'c ReactionsWorld \<Rightarrow> 'c ReactionsWorld" where
  "createReactions_addReaction K type w = controller_call K (ReactionsController.add type) w"

definition createReactions_removeReaction ::
  "('cfg, string, 'c, ReactionsState, ReactionsController, 'z) controller_scheme \<Rightarrow>
   string \<Rightarrow> 'c ReactionsWorld \<Rightarrow> 'c ReactionsWorld" where
  "createReactions_removeReaction K type w = controller_call K (ReactionsController.remove type) w"

definition createReactions_refresh ::
  "('cfg, string, 'c, ReactionsState, ReactionsController, 'z) controller_scheme \<Rightarrow>
   'c ReactionsWorld \<Rightarrow> 'c ReactionsWorld" where
  "createReactions_refresh K w = controller_call K ReactionsController.fetch w"

definition createReactions_run ::
  "(CreateReactionsOptions \<Rightarrow> 'cfg) \<Rightarrow>
   ('cfg, string, 'c, ReactionsState, ReactionsController, 'z) controller_scheme \<Rightarrow>
   CreateReactionsOptions \<Rightarrow> ('c, ReactionsState, ReactionsController) event list \<Rightarrow>
   'c ReactionsWorld" where
  "createReactions_run resolveConfig K options es =
     exec (createReactions_effect K options) K es (createReactions resolveConfig K options)"

section \<open>createComments\<close>

text \<open>\<^verbatim>\<open>Comment\<close> is a type of the core package: any type \<open>'cm\<close>.\<close>

record 'cm CommentsState =
  comments :: "'cm list"
  status :: ControllerStatus
  error :: "Error option"

record PostCommentOptions =
  authorEmail :: "string option"
  parentId :: "string option"

datatype CommentsController = fetch | post string string "PostCommentOptions option"

record 'cm CreateCommentsReturn =
  comments :: "'cm list"
  status :: ControllerStatus
  error :: "Error option"

type_synonym ('c, 'cm) CommentsWorld =
  "('c, 'cm CommentsState, CommentsController, 'cm CreateCommentsReturn) world"

definition createComments_callback ::
  "'c \<Rightarrow> 'cm CommentsState \<Rightarrow> 'cm CreateCommentsReturn \<Rightarrow> 'cm CreateCommentsReturn" where
  "createComments_callback c state g =
     g\<lparr>CreateCommentsReturn.comments := CommentsState.comments state,
       CreateCommentsReturn.status := CommentsState.status state,
       CreateCommentsReturn.error := CommentsState.error state\<rparr>"

definition createComments_effect ::
  "('cfg, string, 'c, 'cm CommentsState, CommentsController, 'z) controller_scheme \<Rightarrow>
   CreateCommentsOptions \<Rightarrow> ('c, 'cm) CommentsWorld \<Rightarrow> ('c, 'cm) CommentsWorld" where
  "createComments_effect K options w =
     (case controller_subscribe K createComments_callback w of
        (unsubscribe, w1) \<Rightarrow>
          onCleanup unsubscribe
            (if CreateCommentsOptions.autoFetch options \<noteq> Some False
             then controller_call K CommentsController.fetch w1
             else w1))"

definition createComments ::
  "(CreateCommentsOptions \<Rightarrow> 'cfg) \<Rightarrow>
   ('cfg, string, 'c, 'cm CommentsState, CommentsController, 'z) controller_scheme \<Rightarrow>
   CreateCommentsOptions \<Rightarrow> ('c, 'cm) CommentsWorld" where
  "createComments resolveConfig K options =
     (let config = resolveConfig options
      in controller_new K config (CreateCommentsOptions.contentId options)
           \<lparr>CreateCommentsReturn.comments = [],
            CreateCommentsReturn.status = ''idle'',
            CreateCommentsReturn.error = None\<rparr>)"

definition createComments_postComment ::
  "('cfg, string, 'c, 'cm CommentsState, CommentsController, 'z) controller_scheme \<Rightarrow>
   string \<Rightarrow> string \<Rightarrow> PostCommentOptions option \<Rightarrow>
   ('c, 'cm) CommentsWorld \<Rightarrow> ('c, 'cm) CommentsWorld" where
  "createComments_postComment K author content options w =
     controller_call K (CommentsController.post author content options) w"

definition createComments_refresh ::
  "('cfg, string, 'c, 'cm CommentsState, CommentsController, 'z) controller_scheme \<Rightarrow>
   ('c, 'cm) CommentsWorld \<Rightarrow> ('c, 'cm) CommentsWorld" where
  "createComments_refresh K w = controller_call K CommentsController.fetch w"

definition createComments_run ::
  "(CreateCommentsOptions \<Rightarrow> 'cfg) \<Rightarrow>
   ('cfg, string, 'c, 'cm CommentsState, CommentsController, 'z) controller_scheme \<Rightarrow>
   CreateCommentsOptions \<Rightarrow> ('c, 'cm CommentsState, CommentsController) event list \<Rightarrow>
   ('c, 'cm) CommentsWorld" where
  "createComments_run resolveConfig K options es =
     exec (createComments_effect K options) K es (createComments resolveConfig K options)"

section \<open>createWaitlist\<close>

record WaitlistState =
  status :: ControllerStatus
  message :: "string option"
  position :: "number option"
  error :: "Error option"

record JoinOptions =
  name :: "string option"
  source :: "string option"

datatype WaitlistController = join string "JoinOptions option" | reset

record CreateWaitlistReturn =
  status :: ControllerStatus
  message :: "string option"
  position :: "number option"
  error :: "Error option"

type_synonym 'c WaitlistWorld = "('c, WaitlistState, WaitlistController, CreateWaitlistReturn) world"

definition createWaitlist_callback ::
  "'c \<Rightarrow> WaitlistState \<Rightarrow> CreateWaitlistReturn \<Rightarrow> CreateWaitlistReturn" where
  "createWaitlist_callback c state g =
     g\<lparr>CreateWaitlistReturn.status := WaitlistState.status state,
       CreateWaitlistReturn.message := WaitlistState.message state,
       CreateWaitlistReturn.position := WaitlistState.position state,
       CreateWaitlistReturn.error := WaitlistState.error state\<rparr>"

definition createWaitlist_effect ::
  "('cfg, unit, 'c, WaitlistState, WaitlistController, 'z) controller_scheme \<Rightarrow>
   'c WaitlistWorld \<Rightarrow> 'c WaitlistWorld" where
  "createWaitlist_effect K w =
     (case controller_subscribe K createWaitlist_callback w of
        (unsubscribe, w1) \<Rightarrow> onCleanup unsubscribe w1)"

definition createWaitlist ::
  "(CreateWaitlistOptions \<Rightarrow> 'cfg) \<Rightarrow>
   ('cfg, unit, 'c, WaitlistState, WaitlistController, 'z) controller_scheme \<Rightarrow>
   CreateWaitlistOptions \<Rightarrow> 'c WaitlistWorld" where
  "createWaitlist resolveConfig K options =
     (let config = resolveConfig options
      in controller_new K config ()
           \<lparr>CreateWaitlistReturn.status = ''idle'',
            CreateWaitlistReturn.message = None,
            CreateWaitlistReturn.position = None,
            CreateWaitlistReturn.error = None\<rparr>)"

definition createWaitlist_join ::
  "('cfg, unit, 'c, WaitlistState, WaitlistController, 'z) controller_scheme \<Rightarrow>
   string \<Rightarrow> JoinOptions option \<Rightarrow> 'c WaitlistWorld \<Rightarrow> 'c WaitlistWorld" where
  "createWaitlist_join K email opts w = controller_call K (WaitlistController.join email opts) w"

definition createWaitlist_reset ::
  "('cfg, unit, 'c, WaitlistState, WaitlistController, 'z) controller_scheme \<Rightarrow>
   'c WaitlistWorld \<Rightarrow> 'c WaitlistWorld" where
  "createWaitlist_reset K w = controller_call K WaitlistController.reset w"

definition createWaitlist_run ::
  "(CreateWaitlistOptions \<Rightarrow> 'cfg) \<Rightarrow>
   ('cfg, unit, 'c, WaitlistState, WaitlistController, 'z) controller_scheme \<Rightarrow>
   CreateWaitlistOptions \<Rightarrow> ('c, WaitlistState, WaitlistController) event list \<Rightarrow>
   'c WaitlistWorld" where
  "createWaitlist_run resolveConfig K options es =
     exec (createWaitlist_effect K) K es (createWaitlist resolveConfig K options)"

section \<open>createViews\<close>

record ViewCountsState =
  views :: number
  uniqueVisitors :: number
  status :: ControllerStatus
  error :: "Error option"

text \<open>The method \<^verbatim>\<open>record\<close> is written \<open>recordView\<close>: \<open>record\<close> is a keyword here.\<close>

datatype ViewCountsController = recordView | fetch

record CreateViewsReturn =
  views :: number
  uniqueVisitors :: number
  status :: ControllerStatus
  error :: "Error option"

type_synonym 'c ViewsWorld = "('c, ViewCountsState, ViewCountsController, CreateViewsReturn) world"

definition createViews_callback ::
  "'c \<Rightarrow> ViewCountsState \<Rightarrow> CreateViewsReturn \<Rightarrow> CreateViewsReturn" where
  "createViews_callback c state g =
     g\<lparr>CreateViewsReturn.views := ViewCountsState.views state,
       CreateViewsReturn.uniqueVisitors := ViewCountsState.uniqueVisitors state,
       CreateViewsReturn.status := ViewCountsState.status state,
       CreateViewsReturn.error := ViewCountsState.error state\<rparr>"

definition createViews_effect ::
  "('cfg, string, 'c, ViewCountsState, ViewCountsController, 'z) controller_scheme \<Rightarrow>
   CreateViewsOptions \<Rightarrow> 'c ViewsWorld \<Rightarrow> 'c ViewsWorld" where
  "createViews_effect K options w =
     (case controller_subscribe K createViews_callback w of
        (unsubscribe, w1) \<Rightarrow>
          onCleanup unsubscribe
            (if autoRecord options \<noteq> Some False
             then controller_call K ViewCountsController.recordView w1
             else w1))"

definition createViews ::
  "(CreateViewsOptions \<Rightarrow> 'cfg) \<Rightarrow>
   ('cfg, string, 'c, ViewCountsState, ViewCountsController, 'z) controller_scheme \<Rightarrow>
   CreateViewsOptions \<Rightarrow> 'c ViewsWorld" where
  "createViews resolveConfig K options =
     (let config = resolveConfig options
      in controller_new K config (pageId options)
           \<lparr>CreateViewsReturn.views = 0,
            CreateViewsReturn.uniqueVisitors = 0,
            CreateViewsReturn.status = ''idle'',
            CreateViewsReturn.error = None\<rparr>)"

definition createViews_record ::
  "('cfg, string, 'c, ViewCountsState, ViewCountsController, 'z) controller_scheme \<Rightarrow>
   'c ViewsWorld \<Rightarrow> 'c ViewsWorld" where
  "createViews_record K w = controller_call K ViewCountsController.recordView w"

definition createViews_refresh ::
  "('cfg, string, 'c, ViewCountsState, ViewCountsController, 'z) controller_scheme \<Rightarrow>
   'c ViewsWorld \<Rightarrow> 'c ViewsWorld" where
  "createViews_refresh K w = controller_call K ViewCountsController.fetch w"

definition createViews_run ::
  "(CreateViewsOptions \<Rightarrow> 'cfg) \<Rightarrow>
   ('cfg, string, 'c, ViewCountsState, ViewCountsController, 'z) controller_scheme \<Rightarrow>
   CreateViewsOptions \<Rightarrow> ('c, ViewCountsState, ViewCountsController) event list \<Rightarrow>
   'c ViewsWorld" where
  "createViews_run resolveConfig K options es =
     exec (createViews_effect K options) K es (createViews resolveConfig K options)"

section \<open>createFeedback\<close>

record FeedbackState =
  status :: ControllerStatus
  message :: "string option"
  error :: "Error option"

type_synonym FeedbackType = string

record FeedbackOptions =
  email :: "string option"
  pageUrl :: "string option"

datatype FeedbackController = submit FeedbackType string "FeedbackOptions option" | reset

record CreateFeedbackReturn =
  status :: ControllerStatus
  message :: "string option"
  error :: "Error option"

type_synonym 'c FeedbackWorld = "('c, FeedbackState, FeedbackController, CreateFeedbackReturn) world"

definition createFeedback_callback ::
  "'c \<Rightarrow> FeedbackState \<Rightarrow> CreateFeedbackReturn \<Rightarrow> CreateFeedbackReturn" where
  "createFeedback_callback c state g =
     g\<lparr>CreateFeedbackReturn.status := FeedbackState.status state,
       CreateFeedbackReturn.message := FeedbackState.message state,
       CreateFeedbackReturn.error := FeedbackState.error state\<rparr>"

definition createFeedback_effect ::
  "('cfg, unit, 'c, FeedbackState, FeedbackController, 'z) controller_scheme \<Rightarrow>
   'c FeedbackWorld \<Rightarrow> 'c FeedbackWorld" where
  "createFeedback_effect K w =
     (case controller_subscribe K createFeedback_callback w of
        (unsubscribe, w1) \<Rightarrow> onCleanup unsubscribe w1)"

definition createFeedback ::
  "(CreateFeedbackOptions \<Rightarrow> 'cfg) \<Rightarrow>
   ('cfg, unit, 'c, FeedbackState, FeedbackController, 'z) controller_scheme \<Rightarrow>
   CreateFeedbackOptions \<Rightarrow> 'c FeedbackWorld" where
  "createFeedback resolveConfig K options =
     (let config = resolveConfig options
      in controller_new K config ()
           \<lparr>CreateFeedbackReturn.status = ''idle'',
            CreateFeedbackReturn.message = None,
            CreateFeedbackReturn.error = None\<rparr>)"

definition createFeedback_submit ::
  "('cfg, unit, 'c, FeedbackState, FeedbackController, 'z) controller_scheme \<Rightarrow>
   FeedbackType \<Rightarrow> string \<Rightarrow> FeedbackOptions option \<Rightarrow> 'c FeedbackWorld \<Rightarrow> 'c FeedbackWorld" where
  "createFeedback_submit K type content opts w =
     controller_call K (FeedbackController.submit type content opts) w"

definition createFeedback_reset ::
  "('cfg, unit, 'c, FeedbackState, FeedbackController, 'z) controller_scheme \<Rightarrow>
   'c FeedbackWorld \<Rightarrow> 'c FeedbackWorld" where
  "createFeedback_reset K w = controller_call K FeedbackController.reset w"

definition createFeedback_run ::
  "(CreateFeedbackOptions \<Rightarrow> 'cfg) \<Rightarrow>
   ('cfg, unit, 'c, FeedbackState, FeedbackController, 'z) controller_scheme \<Rightarrow>
   CreateFeedbackOptions \<Rightarrow> ('c, FeedbackState, FeedbackController) event list \<Rightarrow>
   'c FeedbackWorld" where
  "createFeedback_run resolveConfig K options es =
     exec (createFeedback_effect K) K es (createFeedback resolveConfig K options)"

section \<open>createPoll\<close>

text \<open>\<^verbatim>\<open>PollWithResults\<close> is a type of the core package: any type \<open>'p\<close>.\<close>

record 'p PollState =
  poll :: "'p option"
  status :: ControllerStatus
  error :: "Error option"

datatype PollController = fetch | vote "string list"

text \<open>\<^verbatim>\<open>PollController\<close> also answers \<^verbatim>\<open>hasVoted()\<close> from its hidden state.\<close>

record ('cfg, 'a, 'c, 's, 'k) poll_controller = "('cfg, 'a, 'c, 's, 'k) controller" +
  hasVoted :: "'c \<Rightarrow> bool"

record 'p CreatePollReturn =
  poll :: "'p option"
  status :: ControllerStatus
  error :: "Error option"

type_synonym ('c, 'p) PollWorld = "('c, 'p PollState, PollController, 'p CreatePollReturn) world"

definition createPoll_callback ::
  "'c \<Rightarrow> 'p PollState \<Rightarrow> 'p CreatePollReturn \<Rightarrow> 'p CreatePollReturn" where
  "createPoll_callback c state g =
     g\<lparr>CreatePollReturn.poll := PollState.poll state,
       CreatePollReturn.status := PollState.status state,
       CreatePollReturn.error := PollState.error state\<rparr>"

definition createPoll_effect ::
  "('cfg, string, 'c, 'p PollState, PollController, 'z) poll_controller_scheme \<Rightarrow>
   CreatePollOptions \<Rightarrow> ('c, 'p) PollWorld \<Rightarrow> ('c, 'p) PollWorld" where
  "createPoll_effect K options w =
     (case controller_subscribe K createPoll_callback w of
        (unsubscribe, w1) \<Rightarrow>
          onCleanup unsubscribe
            (if CreatePollOptions.autoFetch options \<noteq> Some False
             then controller_call K PollController.fetch w1
             else w1))"

definition createPoll ::
  "(CreatePollOptions \<Rightarrow> 'cfg) \<Rightarrow>
   ('cfg, string, 'c, 'p PollState, PollController, 'z) poll_controller_scheme \<Rightarrow>
   CreatePollOptions \<Rightarrow> ('c, 'p) PollWorld" where
  "createPoll resolveConfig K options =
     (let config = resolveConfig options
      in controller_new K config (slug options)
           \<lparr>CreatePollReturn.poll = None,
            CreatePollReturn.status = ''idle'',
            CreatePollReturn.error = None\<rparr>)"

definition createPoll_vote ::
  "('cfg, string, 'c, 'p PollState, PollController, 'z) poll_controller_scheme \<Rightarrow>
   string list \<Rightarrow> ('c, 'p) PollWorld \<Rightarrow> ('c, 'p) PollWorld" where
  "createPoll_vote K selectedOptions w = controller_call K (PollController.vote selectedOptions) w"

definition createPoll_refresh ::
  "('cfg, string, 'c, 'p PollState, PollController, 'z) poll_controller_scheme \<Rightarrow>
   ('c, 'p) PollWorld \<Rightarrow> ('c, 'p) PollWorld" where
  "createPoll_refresh K w = controller_call K PollController.fetch w"

definition createPoll_hasVoted ::
  "('cfg, string, 'c, 'p PollState, PollController, 'z) poll_controller_scheme \<Rightarrow>
   ('c, 'p) PollWorld \<Rightarrow> bool" where
  "createPoll_hasVoted K w = hasVoted K (hidden w)"

definition createPoll_run ::
  "(CreatePollOptions \<Rightarrow> 'cfg) \<Rightarrow>
   ('cfg, string, 'c, 'p PollState, PollController, 'z) poll_controller_scheme \<Rightarrow>
   CreatePollOptions \<Rightarrow> ('c, 'p PollState, PollController) event list \<Rightarrow> ('c, 'p) PollWorld" where
  "createPoll_run resolveConfig K options es =
     exec (createPoll_effect K options) K es (createPoll resolveConfig K options)"

section \<open>createAnnouncements\<close>

text \<open>
  \<^verbatim>\<open>Announcement\<close> is a type of the core package: any type \<open>'an\<close>. The state's field
  \<open>announcements\<close> is the one the callback leaves unread.
\<close>

record 'an AnnouncementsState =
  announcements :: "'an list"
  status :: ControllerStatus
  error :: "Error option"

datatype AnnouncementsController = fetch | dismiss number

text \<open>\<^verbatim>\<open>AnnouncementsController\<close> also answers \<^verbatim>\<open>getVisibleAnnouncements()\<close>.\<close>

record ('cfg, 'a, 'c, 's, 'k, 'an) announcements_controller = "('cfg, 'a, 'c, 's, 'k) controller" +
  getVisibleAnnouncements :: "'c \<Rightarrow> 'an list"

record 'an CreateAnnouncementsReturn =
  announcements :: "'an list"
  status :: ControllerStatus
  error :: "Error option"

type_synonym ('c, 'an) AnnouncementsWorld =
  "('c, 'an AnnouncementsState, AnnouncementsController, 'an CreateAnnouncementsReturn) world"

definition createAnnouncements_callback ::
  "('cfg, unit, 'c, 'an AnnouncementsState, AnnouncementsController, 'an, 'z) announcements_controller_scheme \<Rightarrow>
   'c \<Rightarrow> 'an AnnouncementsState \<Rightarrow> 'an CreateAnnouncementsReturn \<Rightarrow> 'an CreateAnnouncementsReturn" where
  "createAnnouncements_callback K c state g =
     g\<lparr>CreateAnnouncementsReturn.announcements := getVisibleAnnouncements K c,
       CreateAnnouncementsReturn.status := AnnouncementsState.status state,
       CreateAnnouncementsReturn.error := AnnouncementsState.error state\<rparr>"

definition createAnnouncements_effect ::
  "('cfg, unit, 'c, 'an AnnouncementsState, AnnouncementsController, 'an, 'z) announcements_controller_scheme \<Rightarrow>
   CreateAnnouncementsOptions \<Rightarrow> ('c, 'an) AnnouncementsWorld \<Rightarrow> ('c, 'an) AnnouncementsWorld" where
  "createAnnouncements_effect K options w =
     (case controller_subscribe K (createAnnouncements_callback K) w of
        (unsubscribe, w1) \<Rightarrow>
          onCleanup unsubscribe
            (if CreateAnnouncementsOptions.autoFetch options \<noteq> Some False
             then controller_call K AnnouncementsController.fetch w1
             else w1))"

definition createAnnouncements ::
  "(CreateAnnouncementsOptions \<Rightarrow> 'cfg) \<Rightarrow>
   ('cfg, unit, 'c, 'an AnnouncementsState, AnnouncementsController, 'an, 'z) announcements_controller_scheme \<Rightarrow>
   CreateAnnouncementsOptions \<Rightarrow> ('c, 'an) AnnouncementsWorld" where
  "createAnnouncements resolveConfig K options =
     (let config = resolveConfig options
      in controller_new K config ()
           \<lparr>CreateAnnouncementsReturn.announcements = [],
            CreateAnnouncementsReturn.status = ''idle'',
            CreateAnnouncementsReturn.error = None\<rparr>)"

definition createAnnouncements_dismiss ::
  "('cfg, unit, 'c, 'an AnnouncementsState, AnnouncementsController, 'an, 'z) announcements_controller_scheme \<Rightarrow>
   number \<Rightarrow> ('c, 'an) AnnouncementsWorld \<Rightarrow> ('c, 'an) AnnouncementsWorld" where
  "createAnnouncements_dismiss K announcementId w =
     controller_call K (AnnouncementsController.dismiss announcementId) w"

definition createAnnouncements_refresh ::
  "('cfg, unit, 'c, 'an AnnouncementsState, AnnouncementsController, 'an, 'z) announcements_controller_scheme \<Rightarrow>
   ('c, 'an) AnnouncementsWorld \<Rightarrow> ('c, 'an) AnnouncementsWorld" where
  "createAnnouncements_refresh K w = controller_call K AnnouncementsController.fetch w"

definition createAnnouncements_run ::
  "(CreateAnnouncementsOptions \<Rightarrow> 'cfg) \<Rightarrow>
   ('cfg, unit, 'c, 'an AnnouncementsState, AnnouncementsController, 'an, 'z) announcements_controller_scheme \<Rightarrow>
   CreateAnnouncementsOptions \<Rightarrow> ('c, 'an AnnouncementsState, AnnouncementsController) event list \<Rightarrow>
   ('c, 'an) AnnouncementsWorld" where
  "createAnnouncements_run resolveConfig K options es =
     exec (createAnnouncements_effect K options) K es (createAnnouncements resolveConfig K options)"

section \<open>Notions used to state the properties\<close>

text \<open>
  The same controller with its notifications suppressed: every call and every
  subscription changes the hidden state as before and pushes nothing.
\<close>

definition quiet ::
  "('cfg, 'a, 'c, 's, 'k, 'z) controller_scheme \<Rightarrow> ('cfg, 'a, 'c, 's, 'k, 'z) controller_scheme" where
  "quiet K =
     K\<lparr>on_subscribe := (\<lambda>c. ([], snd (on_subscribe K c))),
       on_call := (\<lambda>k c. ([], snd (on_call K k c)))\<rparr>"

text \<open>
  The same controller standing still: every call and every subscription leaves the
  hidden state as it is and pushes nothing.
\<close>

definition inert ::
  "('cfg, 'a, 'c, 's, 'k, 'z) controller_scheme \<Rightarrow> ('cfg, 'a, 'c, 's, 'k, 'z) controller_scheme" where
  "inert K = K\<lparr>on_subscribe := (\<lambda>c. ([], c)), on_call := (\<lambda>k c. ([], c))\<rparr>"

definition without_dispose :: "('c, 's, 'k) event list \<Rightarrow> ('c, 's, 'k) event list" where
  "without_dispose es = filter (\<lambda>e. case e of Dispose \<Rightarrow> False | _ \<Rightarrow> True) es"

definition without_push :: "('c, 's, 'k) event list \<Rightarrow> ('c, 's, 'k) event list" where
  "without_push es = filter (\<lambda>e. case e of Push c s \<Rightarrow> False | _ \<Rightarrow> True) es"

text \<open>What one run of an effect body adds to the log.\<close>

definition effect_calls ::
  "(('c, 's, 'k, 'g) world \<Rightarrow> ('c, 's, 'k, 'g) world) \<Rightarrow> ('c, 's, 'k, 'g) world \<Rightarrow> 'k call list" where
  "effect_calls body w = drop (length (calls w)) (calls (body w))"

text \<open>
  One controller, at most one listener, and the registered cleanups are exactly the
  unsubscribe functions of the listeners.
\<close>

definition one_pair :: "('c, 's, 'k, 'g) world \<Rightarrow> bool" where
  "one_pair w \<longleftrightarrow>
     constructed (calls w) = 1 \<and> length (listeners w) \<le> 1 \<and>
     map fst (listeners w) = cleanups w"

text \<open>Nothing is subscribed and every subscription ever made has been unsubscribed.\<close>

definition all_unsubscribed :: "('c, 's, 'k, 'g) world \<Rightarrow> bool" where
  "all_unsubscribed w \<longleftrightarrow>
     listeners w = [] \<and> cleanups w = [] \<and>
     subscribed_ids (calls w) = unsubscribed_ids (calls w)"

text \<open>
  \<open>w'\<close> is \<open>w\<close> after exactly the call \<open>k\<close> of the controller: the log grows by that
  call, the hidden state is the one the controller moves to, the signals are what the
  listeners made of the controller's notifications, and nothing else differs.
\<close>

definition delegates ::
  "('cfg, 'a, 'c, 's, 'k, 'z) controller_scheme \<Rightarrow> 'k \<Rightarrow>
   ('c, 's, 'k, 'g) world \<Rightarrow> ('c, 's, 'k, 'g) world \<Rightarrow> bool" where
  "delegates K k w w' \<longleftrightarrow>
     calls w' = calls w @ [Method k] \<and>
     hidden w' = snd (on_call K k (hidden w)) \<and>
     signals w' = signals (deliver (fst (on_call K k (hidden w))) w) \<and>
     listeners w' = listeners w \<and> fresh w' = fresh w \<and>
     cleanups w' = cleanups w \<and> disposed w' = disposed w"

text \<open>
  An operation \<open>f\<close> of a primitive leaves every signal as it is when the controller
  pushes nothing, and also when nothing is subscribed.
\<close>

definition untouched ::
  "('cfg, 'a, 'c, 's, 'k, 'z) controller_scheme \<Rightarrow> ('c, 's, 'k, 'g) world \<Rightarrow>
   (('cfg, 'a, 'c, 's, 'k, 'z) controller_scheme \<Rightarrow> ('c, 's, 'k, 'g) world \<Rightarrow> ('c, 's, 'k, 'g) world) \<Rightarrow>
   bool" where
  "untouched K w f \<longleftrightarrow>
     signals (f (quiet K) w) = signals w \<and>
     signals (f K (w\<lparr>listeners := []\<rparr>)) = signals w"

text \<open>The invariant of an instance, and the state after disposal (used in the proofs).\<close>

definition wired :: "('c, 's, 'k, 'g) world \<Rightarrow> bool" where
  "wired w \<longleftrightarrow>
     map fst (listeners w) = cleanups w \<and> length (cleanups w) \<le> 1 \<and>
     constructed (calls w) = 1 \<and>
     subscribed_ids (calls w) = unsubscribed_ids (calls w) @ cleanups w"

definition torn_down :: "('c, 's, 'k, 'g) world \<Rightarrow> bool" where
  "torn_down w \<longleftrightarrow> disposed w \<and> listeners w = [] \<and> cleanups w = []"

definition ends_with :: "('c \<Rightarrow> 's \<Rightarrow> 'g \<Rightarrow> 'g) \<Rightarrow> ('c, 's, 'k, 'g) world \<Rightarrow> bool" where
  "ends_with cb w \<longleftrightarrow> (\<exists>ls i. listeners w = ls @ [(i, cb)])"

section \<open>Sample controllers\<close>

text \<open>
  Controllers to run the primitives on concrete inputs. The first answers every call
  with one notification of a fixed state and counts the calls in its hidden state.
\<close>

definition sample_controller :: "'s \<Rightarrow> (unit, 'a, nat, 's, 'k) controller" where
  "sample_controller s =
     \<lparr>construct = (\<lambda>cfg a. 0),
      on_subscribe = (\<lambda>c. ([], c)),
      on_call = (\<lambda>k c. ([(Suc c, s)], Suc c))\<rparr>"

definition sample_PollController :: "'s \<Rightarrow> (unit, 'a, nat, 's, 'k) poll_controller" where
  "sample_PollController s =
     \<lparr>construct = (\<lambda>cfg a. 0),
      on_subscribe = (\<lambda>c. ([], c)),
      on_call = (\<lambda>k c. ([(Suc c, s)], Suc c)),
      hasVoted = (\<lambda>c. 1 < c)\<rparr>"

text \<open>
  An announcements controller in the way of the core's: its hidden state is the list
  of fetched announcements (identifier and content) and the dismissed identifiers; the
  state it pushes carries all fetched announcements, and the visible ones are those
  not dismissed.
\<close>

type_synonym sample_announcement = "number \<times> string"

definition sample_feed :: "sample_announcement list" where
  "sample_feed = [(1, ''maintenance''), (2, ''release'')]"

definition sample_state ::
  "sample_announcement list \<times> number list \<Rightarrow> sample_announcement AnnouncementsState" where
  "sample_state c =
     \<lparr>AnnouncementsState.announcements = fst c,
      AnnouncementsState.status = ''success'',
      AnnouncementsState.error = None\<rparr>"

definition sample_AnnouncementsController ::
  "(unit, unit, sample_announcement list \<times> number list, sample_announcement AnnouncementsState,
    AnnouncementsController, sample_announcement) announcements_controller" where
  "sample_AnnouncementsController =
     \<lparr>construct = (\<lambda>cfg a. ([], [])),
      on_subscribe = (\<lambda>c. ([], c)),
      on_call = (\<lambda>k c.
        case k of
          AnnouncementsController.fetch \<Rightarrow>
            ([((sample_feed, snd c), sample_state (sample_feed, snd c))], (sample_feed, snd c))
        | AnnouncementsController.dismiss i \<Rightarrow>
            ([((fst c, i # snd c), sample_state (fst c, i # snd c))], (fst c, i # snd c))),
      getVisibleAnnouncements = (\<lambda>c. filter (\<lambda>a. fst a \<notin> set (snd c)) (fst c))\<rparr>"

definition sample_options :: CreateAnnouncementsOptions where
  "sample_options = \<lparr>siteKey = None, CreateAnnouncementsOptions.autoFetch = None\<rparr>"

text \<open>Sample states and options for the other primitives with a mount-time call.\<close>

definition sample_ReactionsState :: ReactionsState where
  "sample_ReactionsState =
     \<lparr>ReactionsState.counts = [''like'' \<mapsto> 2],
      ReactionsState.userReactions = [''like''],
      ReactionsState.status = ''success'',
      ReactionsState.error = None\<rparr>"

definition sample_CommentsState :: "string CommentsState" where
  "sample_CommentsState =
     \<lparr>CommentsState.comments = [''first''],
      CommentsState.status = ''success'',
      CommentsState.error = None\<rparr>"

definition sample_ViewCountsState :: ViewCountsState where
  "sample_ViewCountsState =
     \<lparr>ViewCountsState.views = 10,
      ViewCountsState.uniqueVisitors = 4,
      ViewCountsState.status = ''success'',
      ViewCountsState.error = None\<rparr>"

definition sample_PollState :: "string PollState" where
  "sample_PollState =
     \<lparr>PollState.poll = Some ''favorite-framework'',
      PollState.status = ''success'',
      PollState.error = None\<rparr>"

definition sample_ReactionsOptions :: CreateReactionsOptions where
  "sample_ReactionsOptions =
     \<lparr>siteKey = None, CreateReactionsOptions.contentId = ''my-post-slug'',
      CreateReactionsOptions.autoFetch = None\<rparr>"

definition sample_CommentsOptions :: CreateCommentsOptions where
  "sample_CommentsOptions =
     \<lparr>siteKey = None, CreateCommentsOptions.contentId = ''my-post-slug'',
      CreateCommentsOptions.autoFetch = Some True\<rparr>"

definition sample_ViewsOptions :: CreateViewsOptions where
  "sample_ViewsOptions = \<lparr>siteKey = None, pageId = ''/blog/my-post'', autoRecord = None\<rparr>"

definition sample_PollOptions :: CreatePollOptions where
  "sample_PollOptions =
     \<lparr>siteKey = None, slug = ''favorite-framework'', CreatePollOptions.autoFetch = None\<rparr>"

section \<open>Facts about the runtime model\<close>

text \<open>
  What the operations of the model change and what they leave alone.
\<close>

lemma notify_frame [simp]:
  "hidden (notify s w) = hidden w" "listeners (notify s w) = listeners w"
  "fresh (notify s w) = fresh w" "calls (notify s w) = calls w"
  "cleanups (notify s w) = cleanups w" "disposed (notify s w) = disposed w"
  by (simp_all add: notify_def)

lemma deliver_frame [simp]:
  "listeners (deliver ps w) = listeners w"
  "fresh (deliver ps w) = fresh w" "calls (deliver ps w) = calls w"
  "cleanups (deliver ps w) = cleanups w" "disposed (deliver ps w) = disposed w"
  by (induction ps arbitrary: w; simp)+

lemma notify_no_listeners: "listeners w = [] \<Longrightarrow> signals (notify s w) = signals w"
  by (simp add: notify_def)

lemma deliver_no_listeners: "listeners w = [] \<Longrightarrow> signals (deliver ps w) = signals w"
  by (induction ps arbitrary: w) (simp_all add: notify_no_listeners)

lemma deliver_append: "deliver (ps @ qs) w = deliver qs (deliver ps w)"
  by (induction ps arbitrary: w) simp_all

lemma notify_last:
  "listeners w = ls @ [(i, cb)] \<Longrightarrow>
   signals (notify s w) = cb (hidden w) s (foldl (\<lambda>g l. snd l (hidden w) s g) (signals w) ls)"
  by (simp add: notify_def)

lemma controller_call_frame [simp]:
  "listeners (controller_call K k w) = listeners w"
  "fresh (controller_call K k w) = fresh w"
  "cleanups (controller_call K k w) = cleanups w"
  "disposed (controller_call K k w) = disposed w"
  "calls (controller_call K k w) = calls w @ [Method k]"
  "hidden (controller_call K k w) = snd (on_call K k (hidden w))"
  by (simp_all add: controller_call_def split: prod.split)

lemma notify_calls_update:
  "notify s (w\<lparr>calls := cs, hidden := c\<rparr>) = (notify s (w\<lparr>hidden := c\<rparr>))\<lparr>calls := cs\<rparr>"
  by (simp add: notify_def)

lemma deliver_calls_update: "deliver ps (w\<lparr>calls := cs\<rparr>) = (deliver ps w)\<lparr>calls := cs\<rparr>"
  by (induction ps arbitrary: w) (simp_all add: notify_calls_update)

lemma controller_call_signals:
  "signals (controller_call K k w) = signals (deliver (fst (on_call K k (hidden w))) w)"
  by (simp add: controller_call_def deliver_calls_update split: prod.split)

lemma controller_push_frame [simp]:
  "listeners (controller_push c s w) = listeners w"
  "fresh (controller_push c s w) = fresh w"
  "cleanups (controller_push c s w) = cleanups w"
  "disposed (controller_push c s w) = disposed w"
  "calls (controller_push c s w) = calls w"
  "hidden (controller_push c s w) = c"
  by (simp_all add: controller_push_def)

lemma controller_subscribe_frame [simp]:
  "fst (controller_subscribe K cb w) = fresh w"
  "listeners (snd (controller_subscribe K cb w)) = listeners w @ [(fresh w, cb)]"
  "fresh (snd (controller_subscribe K cb w)) = Suc (fresh w)"
  "cleanups (snd (controller_subscribe K cb w)) = cleanups w"
  "disposed (snd (controller_subscribe K cb w)) = disposed w"
  "calls (snd (controller_subscribe K cb w)) = calls w @ [Subscribe (fresh w)]"
  "hidden (snd (controller_subscribe K cb w)) = snd (on_subscribe K (hidden w))"
  by (simp_all add: controller_subscribe_def split: prod.split)

lemma onCleanup_frame [simp]:
  "listeners (onCleanup i w) = listeners w" "fresh (onCleanup i w) = fresh w"
  "cleanups (onCleanup i w) = cleanups w @ [i]" "disposed (onCleanup i w) = disposed w"
  "calls (onCleanup i w) = calls w" "hidden (onCleanup i w) = hidden w"
  "signals (onCleanup i w) = signals w"
  by (simp_all add: onCleanup_def)

lemma effect_shape_frame [simp]:
  "listeners (effect_shape K cb auto w) = listeners w @ [(fresh w, cb)]"
  "fresh (effect_shape K cb auto w) = Suc (fresh w)"
  "cleanups (effect_shape K cb auto w) = cleanups w @ [fresh w]"
  "disposed (effect_shape K cb auto w) = disposed w"
  "calls (effect_shape K cb auto w) =
     calls w @ Subscribe (fresh w) # (case auto of None \<Rightarrow> [] | Some k \<Rightarrow> [Method k])"
  by (cases "controller_subscribe K cb w"; cases auto;
      use controller_subscribe_frame [of K cb w] in \<open>simp add: effect_shape_def\<close>)+

lemma unsubscribe_all_frame:
  "listeners (foldl (\<lambda>v i. controller_unsubscribe i v) w is) = filter (\<lambda>l. fst l \<notin> set is) (listeners w)"
  "calls (foldl (\<lambda>v i. controller_unsubscribe i v) w is) = calls w @ map Unsubscribe is"
  "fresh (foldl (\<lambda>v i. controller_unsubscribe i v) w is) = fresh w"
  "cleanups (foldl (\<lambda>v i. controller_unsubscribe i v) w is) = cleanups w"
  "disposed (foldl (\<lambda>v i. controller_unsubscribe i v) w is) = disposed w"
  "hidden (foldl (\<lambda>v i. controller_unsubscribe i v) w is) = hidden w"
  "signals (foldl (\<lambda>v i. controller_unsubscribe i v) w is) = signals w"
  by (induction "is" arbitrary: w; simp add: controller_unsubscribe_def; metis)+

lemma runCleanups_frame [simp]:
  "listeners (runCleanups w) = filter (\<lambda>l. fst l \<notin> set (cleanups w)) (listeners w)"
  "calls (runCleanups w) = calls w @ map Unsubscribe (rev (cleanups w))"
  "fresh (runCleanups w) = fresh w"
  "cleanups (runCleanups w) = []"
  "disposed (runCleanups w) = disposed w"
  "hidden (runCleanups w) = hidden w"
  "signals (runCleanups w) = signals w"
  by (simp_all add: runCleanups_def unsubscribe_all_frame)

subsection \<open>The log, the invariant of an instance, and disposal\<close>

lemma log_append [simp]:
  "constructed (cs @ ds) = constructed cs + constructed ds"
  "subscribed_ids (cs @ ds) = subscribed_ids cs @ subscribed_ids ds"
  "unsubscribed_ids (cs @ ds) = unsubscribed_ids cs @ unsubscribed_ids ds"
  "method_calls (cs @ ds) = method_calls cs @ method_calls ds"
  by (simp_all add: constructed_def subscribed_ids_def unsubscribed_ids_def method_calls_def)

lemma log_single [simp]:
  "constructed [] = 0" "constructed (New # cs) = Suc (constructed cs)"
  "constructed (Subscribe i # cs) = constructed cs" "constructed (Unsubscribe i # cs) = constructed cs"
  "constructed (Method k # cs) = constructed cs"
  "subscribed_ids [] = []" "subscribed_ids (New # cs) = subscribed_ids cs"
  "subscribed_ids (Subscribe i # cs) = i # subscribed_ids cs"
  "subscribed_ids (Unsubscribe i # cs) = subscribed_ids cs"
  "subscribed_ids (Method k # cs) = subscribed_ids cs"
  "unsubscribed_ids [] = []" "unsubscribed_ids (New # cs) = unsubscribed_ids cs"
  "unsubscribed_ids (Subscribe i # cs) = unsubscribed_ids cs"
  "unsubscribed_ids (Unsubscribe i # cs) = i # unsubscribed_ids cs"
  "unsubscribed_ids (Method k # cs) = unsubscribed_ids cs"
  "method_calls [] = []" "method_calls (New # cs) = method_calls cs"
  "method_calls (Subscribe i # cs) = method_calls cs"
  "method_calls (Unsubscribe i # cs) = method_calls cs"
  "method_calls (Method k # cs) = k # method_calls cs"
  by (simp_all add: constructed_def subscribed_ids_def unsubscribed_ids_def method_calls_def)

lemma log_unsubscribes [simp]:
  "constructed (map Unsubscribe is) = 0"
  "subscribed_ids (map Unsubscribe is) = []"
  "unsubscribed_ids (map Unsubscribe is) = is"
  "method_calls (map Unsubscribe is) = []"
  by (induction "is") simp_all

lemma short_rev: "length xs \<le> 1 \<Longrightarrow> rev xs = xs"
  by (cases xs) simp_all

lemma filter_own_ids: "filter (\<lambda>l. fst l \<notin> set (map fst ls)) ls = []"
  by (induction ls) auto

lemma wired_runCleanups:
  assumes "wired w"
  shows "listeners (runCleanups w) = []"
    and "subscribed_ids (calls (runCleanups w)) = unsubscribed_ids (calls (runCleanups w))"
    and "constructed (calls (runCleanups w)) = 1"
proof -
  from assms have m: "map fst (listeners w) = cleanups w" and l: "length (cleanups w) \<le> 1"
    and c: "constructed (calls w) = 1"
    and s: "subscribed_ids (calls w) = unsubscribed_ids (calls w) @ cleanups w"
    by (simp_all add: wired_def)
  show "listeners (runCleanups w) = []"
    using filter_own_ids [of "listeners w"] by (simp add: m)
  show "subscribed_ids (calls (runCleanups w)) = unsubscribed_ids (calls (runCleanups w))"
    by (simp add: s short_rev [OF l])
  show "constructed (calls (runCleanups w)) = 1"
    by (simp add: c)
qed

lemma wired_dispose: "wired w \<Longrightarrow> wired (dispose w)"
  using wired_runCleanups [of w]
  by (simp add: dispose_def wired_def del: runCleanups_frame(1,2))

lemma wired_runEffect: "wired w \<Longrightarrow> wired (runEffect (effect_shape K cb auto) w)"
  using wired_runCleanups [of w]
  by (cases auto) (simp_all add: runEffect_def wired_def del: runCleanups_frame(1,2))

lemma wired_step: "wired w \<Longrightarrow> wired (step (effect_shape K cb auto) K e w)"
proof (cases e)
  case Run
  then show "wired w \<Longrightarrow> ?thesis" by (simp add: wired_runEffect)
next
  case Dispose
  then show "wired w \<Longrightarrow> ?thesis" by (simp add: wired_dispose)
next
  case (Push c s)
  then show "wired w \<Longrightarrow> ?thesis" by (simp add: wired_def)
next
  case (Call k)
  then show "wired w \<Longrightarrow> ?thesis" by (simp add: wired_def)
qed

lemma wired_exec: "wired w \<Longrightarrow> wired (exec (effect_shape K cb auto) K es w)"
  unfolding exec_def by (induction es arbitrary: w) (simp_all add: wired_step)

lemma torn_down_step:
  assumes "torn_down w"
  shows "torn_down (step body K e w)" and "signals (step body K e w) = signals w"
  using assms
  by (cases e; simp add: torn_down_def runEffect_def dispose_def controller_push_def
        notify_no_listeners controller_call_signals deliver_no_listeners)+

lemma torn_down_exec:
  "torn_down w \<Longrightarrow> torn_down (exec body K es w) \<and> signals (exec body K es w) = signals w"
  unfolding exec_def by (induction es arbitrary: w) (simp_all add: torn_down_step)

lemma wired_torn_down: "wired w \<Longrightarrow> torn_down (dispose w)"
  using wired_runCleanups [of w]
  by (simp add: torn_down_def dispose_def del: runCleanups_frame(1,2))

lemma exec_append: "exec body K (es @ fs) w = exec body K fs (exec body K es w)"
  by (simp add: exec_def)

lemma exec_snoc: "exec body K (es @ [e]) w = step body K e (exec body K es w)"
  by (simp add: exec_def)


lemma controller_new_eq:
  "controller_new K config arg g = new_instance (construct K config arg) g"
  by (simp add: controller_new_def new_instance_def)

lemma runCleanups_new_instance [simp]: "runCleanups (new_instance c g) = new_instance c g"
  by (simp add: runCleanups_def new_instance_def)

lemma new_instance_sel [simp]:
  "hidden (new_instance c g) = c" "listeners (new_instance c g) = []"
  "fresh (new_instance c g) = 0" "calls (new_instance c g) = [New]"
  "cleanups (new_instance c g) = []" "disposed (new_instance c g) = False"
  "signals (new_instance c g) = g"
  by (simp_all add: new_instance_def)

lemma wired_new_instance: "wired (new_instance c g)"
  by (simp add: wired_def)

lemma wired_one_pair: "wired w \<Longrightarrow> one_pair w"
  by (auto simp add: wired_def one_pair_def dest: arg_cong [where f = length])

lemma torn_down_all_unsubscribed: "wired w \<Longrightarrow> all_unsubscribed (dispose w)"
  using wired_runCleanups [of w]
  by (simp add: all_unsubscribed_def dispose_def del: runCleanups_frame(1,2))

lemma ends_with_effect: "ends_with cb (effect_shape K cb auto w)"
  by (simp add: ends_with_def)

lemma ends_with_step:
  "ends_with cb w \<Longrightarrow> (case e of Dispose \<Rightarrow> False | _ \<Rightarrow> True) \<Longrightarrow>
   ends_with cb (step (effect_shape K cb auto) K e w)"
  by (cases e) (simp_all add: runEffect_def ends_with_effect, simp_all add: ends_with_def)

lemma ends_with_exec:
  "ends_with cb w \<Longrightarrow> ends_with cb (exec (effect_shape K cb auto) K (without_dispose es) w)"
  unfolding exec_def without_dispose_def
  by (induction es arbitrary: w) (simp_all add: ends_with_step)

lemma exec_Run_new_instance:
  "exec body K (Run # es) (new_instance c g) = exec body K es (body (new_instance c g))"
  by (simp add: exec_def runEffect_def)

lemma ends_with_mounted:
  "ends_with cb (exec (effect_shape K cb auto) K (Run # without_dispose es) (new_instance c g))"
  by (simp add: exec_Run_new_instance ends_with_exec ends_with_effect)

lemma push_ends_with:
  "ends_with cb w \<Longrightarrow> (\<And>g. cb c s g = v) \<Longrightarrow> signals (controller_push c s w) = v"
  by (auto simp add: ends_with_def controller_push_def notify_def)

lemma deliver_ends_with:
  "ends_with cb w \<Longrightarrow> (\<And>g. cb c s g = v) \<Longrightarrow> signals (deliver (ps @ [(c, s)]) w) = v"
  by (auto simp add: ends_with_def deliver_append notify_def)

lemma effect_shape_signals:
  assumes "fst (on_call K k (snd (on_subscribe K (hidden w)))) = ps @ [(c, s)]"
    and "\<And>g. cb c s g = v"
  shows "signals (effect_shape K cb (Some k) w) = v"
proof -
  obtain u w1 where sub: "controller_subscribe K cb w = (u, w1)"
    by (cases "controller_subscribe K cb w")
  from sub have w1: "w1 = snd (controller_subscribe K cb w)" by simp
  have e: "ends_with cb w1" by (simp add: w1 ends_with_def)
  have h: "hidden w1 = snd (on_subscribe K (hidden w))" by (simp add: w1)
  show ?thesis
    using deliver_ends_with [OF e assms(2), of ps] assms(1)
    by (simp add: effect_shape_def sub controller_call_signals h)
qed

lemma quiet_sel [simp]:
  "on_call (quiet K) k c = ([], snd (on_call K k c))"
  "on_subscribe (quiet K) c = ([], snd (on_subscribe K c))"
  "construct (quiet K) = construct K"
  by (simp_all add: quiet_def)

lemma quiet_call: "signals (controller_call (quiet K) k w) = signals w"
  by (simp add: controller_call_signals)

lemma quiet_subscribe: "signals (snd (controller_subscribe (quiet K) cb w)) = signals w"
  by (simp add: controller_subscribe_def)

lemma quiet_effect: "signals (effect_shape (quiet K) cb auto w) = signals w"
  by (cases "controller_subscribe (quiet K) cb w"; cases auto;
      use quiet_subscribe [of K cb w] in \<open>simp add: effect_shape_def quiet_call\<close>)

lemma quiet_step:
  "(case e of Push c s \<Rightarrow> False | _ \<Rightarrow> True) \<Longrightarrow>
   signals (step (effect_shape (quiet K) cb auto) (quiet K) e w) = signals w"
  by (cases e) (simp_all add: runEffect_def dispose_def quiet_effect quiet_call)

lemma quiet_exec:
  "signals (exec (effect_shape (quiet K) cb auto) (quiet K) (without_push es) w) = signals w"
  unfolding exec_def without_push_def
  by (induction es arbitrary: w) (simp_all add: quiet_step)

lemma inert_sel [simp]:
  "on_call (inert K) k c = ([], c)"
  "on_subscribe (inert K) c = ([], c)"
  "construct (inert K) = construct K"
  by (simp_all add: inert_def)

lemma effect_shape_hidden:
  "hidden (effect_shape K cb auto w) =
     (case auto of
        None \<Rightarrow> snd (on_subscribe K (hidden w))
      | Some k \<Rightarrow> snd (on_call K k (snd (on_subscribe K (hidden w)))))"
  by (cases "controller_subscribe K cb w"; cases auto;
      use controller_subscribe_frame [of K cb w] in \<open>simp add: effect_shape_def\<close>)

lemma inert_step:
  "(case e of Push c s \<Rightarrow> False | _ \<Rightarrow> True) \<Longrightarrow>
   hidden (step (effect_shape (inert K) cb auto) (inert K) e w) = hidden w"
  by (cases e) (simp_all add: runEffect_def dispose_def effect_shape_hidden split: option.split)

lemma inert_exec:
  "hidden (exec (effect_shape (inert K) cb auto) (inert K) (without_push es) w) = hidden w"
  unfolding exec_def without_push_def
  by (induction es arbitrary: w) (simp_all add: inert_step)

lemma call_no_listeners: "signals (controller_call K k (w\<lparr>listeners := []\<rparr>)) = signals w"
  by (simp add: controller_call_signals deliver_no_listeners)

lemma untouched_call: "untouched K w (\<lambda>K. controller_call K k)"
  by (simp add: untouched_def quiet_call call_no_listeners)

lemma delegates_call: "delegates K k w (controller_call K k w)"
  by (simp add: delegates_def controller_call_signals)

lemma effect_calls_shape:
  "effect_calls (effect_shape K cb auto) w =
     Subscribe (fresh w) # (case auto of None \<Rightarrow> [] | Some k \<Rightarrow> [Method k])"
  by (simp add: effect_calls_def)


lemma one_pair_exec: "wired w \<Longrightarrow> one_pair (exec (effect_shape K cb auto) K es w)"
  by (simp add: wired_one_pair wired_exec)

lemma exec_dispose_unsubscribed:
  "wired w \<Longrightarrow> all_unsubscribed (exec (effect_shape K cb auto) K (es @ [Dispose]) w)"
  by (simp add: exec_snoc torn_down_all_unsubscribed wired_exec)

lemma exec_after_dispose:
  assumes "wired w"
  shows "signals (exec (effect_shape K cb auto) K (es @ Dispose # es') w) =
         signals (exec (effect_shape K cb auto) K (es @ [Dispose]) w)"
proof -
  have t: "torn_down (exec (effect_shape K cb auto) K (es @ [Dispose]) w)"
    by (simp add: exec_snoc wired_torn_down wired_exec assms)
  have "exec (effect_shape K cb auto) K (es @ Dispose # es') w =
        exec (effect_shape K cb auto) K es' (exec (effect_shape K cb auto) K (es @ [Dispose]) w)"
    by (simp add: exec_def)
  with torn_down_exec [OF t, of "effect_shape K cb auto" K es'] show ?thesis by simp
qed

lemma mount_unmount_log:
  "unsubscribed_ids (calls (exec (effect_shape K cb auto) K [Run, Dispose] (new_instance c g))) = [0]"
  by (cases auto) (simp_all add: exec_def runEffect_def dispose_def)

subsection \<open>Properties of the signals that every callback establishes\<close>

lemma foldl_callbacks:
  assumes "\<And>c s g. P (cb c s g)" and "P g" and "snd ` set ls \<subseteq> {cb}"
  shows "P (foldl (\<lambda>g l. snd l c s g) g ls)"
  using assms(2,3)
proof (induction ls arbitrary: g)
  case Nil
  then show ?case by simp
next
  case (Cons l ls)
  from Cons.prems(2) have "snd l = cb" by simp
  with assms(1) have "P (snd l c s g)" by simp
  with Cons show ?case by simp
qed

lemma notify_inv:
  assumes "\<And>c s g. P (cb c s g)" and "P (signals w)" and "snd ` set (listeners w) \<subseteq> {cb}"
  shows "P (signals (notify s w))"
  using foldl_callbacks [of P cb "signals w" "listeners w" "hidden w" s] assms
  by (simp add: notify_def)

lemma deliver_inv:
  assumes "\<And>c s g. P (cb c s g)"
  shows "P (signals w) \<Longrightarrow> snd ` set (listeners w) \<subseteq> {cb} \<Longrightarrow> P (signals (deliver ps w))"
proof (induction ps arbitrary: w)
  case Nil
  then show ?case by simp
next
  case (Cons p ps)
  have "P (signals (notify (snd p) (w\<lparr>hidden := fst p\<rparr>)))"
    using Cons.prems by (intro notify_inv [of P cb]) (simp_all add: assms)
  with Cons show ?case by simp
qed

lemma call_inv:
  assumes "\<And>c s g. P (cb c s g)" and "P (signals w)" and "snd ` set (listeners w) \<subseteq> {cb}"
  shows "P (signals (controller_call K k w))"
  using deliver_inv [of P cb w] assms by (simp add: controller_call_signals)

lemma subscribe_inv:
  assumes "\<And>c s g. P (cb c s g)" and "P (signals w)" and "snd ` set (listeners w) \<subseteq> {cb}"
  shows "P (signals (snd (controller_subscribe K cb w)))"
proof -
  have "P (signals (deliver ps (w\<lparr>listeners := listeners w @ [(fresh w, cb)],
          fresh := Suc (fresh w), calls := calls w @ [Subscribe (fresh w)]\<rparr>)))" for ps
    using assms by (intro deliver_inv [of P cb]) auto
  then show ?thesis by (simp add: controller_subscribe_def split: prod.split)
qed

lemma effect_inv:
  assumes "\<And>c s g. P (cb c s g)" and "P (signals w)" and "snd ` set (listeners w) \<subseteq> {cb}"
  shows "P (signals (effect_shape K cb auto w))"
proof -
  obtain u w1 where sub: "controller_subscribe K cb w = (u, w1)"
    by (cases "controller_subscribe K cb w")
  then have w1: "w1 = snd (controller_subscribe K cb w)" by simp
  have l: "snd ` set (listeners w1) \<subseteq> {cb}" using assms(3) by (auto simp add: w1)
  have p: "P (signals w1)"
    unfolding w1 using assms by (intro subscribe_inv [of P cb]) auto
  show ?thesis
    using call_inv [of P cb w1 K, OF assms(1) p l] p
    by (cases auto) (simp_all add: effect_shape_def sub)
qed

lemma step_inv:
  assumes "\<And>c s g. P (cb c s g)" and "P (signals w)" and "snd ` set (listeners w) \<subseteq> {cb}"
  shows "P (signals (step (effect_shape K cb auto) K e w)) \<and>
         snd ` set (listeners (step (effect_shape K cb auto) K e w)) \<subseteq> {cb}"
proof (cases e)
  case Run
  have "snd ` set (listeners (runCleanups w)) \<subseteq> {cb}" using assms(3) by auto
  then have "P (signals (effect_shape K cb auto (runCleanups w)))"
    using assms by (intro effect_inv [of P cb]) simp_all
  with Run assms show ?thesis by (auto simp add: runEffect_def)
next
  case Dispose
  with assms show ?thesis by (auto simp add: dispose_def)
next
  case (Push c s)
  have "P (signals (notify s (w\<lparr>hidden := c\<rparr>)))"
    using assms by (intro notify_inv [of P cb]) simp_all
  with Push assms(3) show ?thesis by (simp add: controller_push_def)
next
  case (Call k)
  with assms call_inv [of P cb w K k] show ?thesis by simp
qed

lemma exec_inv:
  assumes "\<And>c s g. P (cb c s g)"
  shows "P (signals w) \<Longrightarrow> snd ` set (listeners w) \<subseteq> {cb} \<Longrightarrow>
         P (signals (exec (effect_shape K cb auto) K es w))"
  unfolding exec_def
proof (induction es arbitrary: w)
  case Nil
  then show ?case by simp
next
  case (Cons e es)
  from step_inv [of P cb w K auto e, OF assms Cons.prems]
  show ?case by (simp add: Cons.IH)
qed


section \<open>Facts about each primitive\<close>

text \<open>
  Each effect body has the common shape, each callback overwrites every signal, and
  the helper facts for the properties below follow from the facts about the runtime.
\<close>

subsection \<open>createSubscribe\<close>

lemma createSubscribe_effect_shape:
  "createSubscribe_effect K =
     effect_shape K createSubscribe_callback None"
  by (rule ext) (simp add: createSubscribe_effect_def effect_shape_def split: prod.split)

lemma createSubscribe_callback_sets:
  "createSubscribe_callback c state g =
     \<lparr>CreateSubscribeReturn.status = SubscribeState.status state,
       CreateSubscribeReturn.message = SubscribeState.message state,
       CreateSubscribeReturn.error = SubscribeState.error state\<rparr>"
  by (cases g) (simp add: createSubscribe_callback_def)

lemma createSubscribe_new:
  "createSubscribe resolveConfig K options =
     new_instance (construct K (resolveConfig options) ())
       \<lparr>CreateSubscribeReturn.status = ''idle'',
        CreateSubscribeReturn.message = None,
        CreateSubscribeReturn.error = None\<rparr>"
  by (simp add: createSubscribe_def controller_new_eq)

lemma createSubscribe_notified:
  "signals (controller_push c state (createSubscribe_run resolveConfig K options (Run # without_dispose es))) =
     \<lparr>CreateSubscribeReturn.status = SubscribeState.status state,
       CreateSubscribeReturn.message = SubscribeState.message state,
       CreateSubscribeReturn.error = SubscribeState.error state\<rparr>"
  unfolding createSubscribe_run_def createSubscribe_new createSubscribe_effect_shape
  by (rule push_ends_with [OF ends_with_mounted]) (rule createSubscribe_callback_sets)

lemma createSubscribe_one_pair: "one_pair (createSubscribe_run resolveConfig K options es)"
  by (simp add: createSubscribe_run_def createSubscribe_new createSubscribe_effect_shape one_pair_exec wired_new_instance)

lemma createSubscribe_constructs:
  "hidden (createSubscribe resolveConfig K options) =
     construct K (resolveConfig options) ()"
  "calls (createSubscribe resolveConfig K options) = [New]"
  "hidden (createSubscribe_run resolveConfig (inert K) options (without_push es)) =
     construct K (resolveConfig options) ()"
  by (simp_all add: createSubscribe_run_def createSubscribe_new createSubscribe_effect_shape inert_exec)

lemma createSubscribe_effect_adds:
  "listeners (createSubscribe_effect K w) = listeners w @ [(fresh w, createSubscribe_callback)]"
  "cleanups (createSubscribe_effect K w) = cleanups w @ [fresh w]"
  "subscribed_ids (effect_calls (createSubscribe_effect K) w) = [fresh w]"
  by (simp_all add: createSubscribe_effect_shape effect_calls_shape split: option.split)

lemma createSubscribe_teardown:
  "all_unsubscribed (createSubscribe_run resolveConfig K options (es @ [Dispose]))"
  "unsubscribed_ids (calls (createSubscribe_run resolveConfig K options [Run, Dispose])) = [0]"
  by (simp_all add: createSubscribe_run_def createSubscribe_new createSubscribe_effect_shape exec_dispose_unsubscribed
        wired_new_instance mount_unmount_log)

lemma createSubscribe_after_teardown:
  "signals (createSubscribe_run resolveConfig K options (es @ Dispose # es')) =
   signals (createSubscribe_run resolveConfig K options (es @ [Dispose]))"
  unfolding createSubscribe_run_def createSubscribe_new createSubscribe_effect_shape
  by (rule exec_after_dispose [OF wired_new_instance])

lemma createSubscribe_defaults:
  "signals (createSubscribe resolveConfig K options) =
     \<lparr>CreateSubscribeReturn.status = ''idle'',
       CreateSubscribeReturn.message = None,
       CreateSubscribeReturn.error = None\<rparr>"
  "signals (createSubscribe_run resolveConfig (quiet K) options (without_push es)) =
     \<lparr>CreateSubscribeReturn.status = ''idle'',
       CreateSubscribeReturn.message = None,
       CreateSubscribeReturn.error = None\<rparr>"
  by (simp_all add: createSubscribe_run_def createSubscribe_new createSubscribe_effect_shape quiet_exec)

lemma createSubscribe_effect_quiet: "signals (createSubscribe_effect (quiet K) w) = signals w"
  by (simp add: createSubscribe_effect_shape quiet_effect)

lemma createSubscribe_subscribe_delegates:
  "delegates K (SubscribeController.submit mail) w (createSubscribe_subscribe K mail w)"
  by (simp add: createSubscribe_subscribe_def delegates_call)

lemma createSubscribe_subscribe_untouched:
  "untouched K w (\<lambda>K. createSubscribe_subscribe K mail)"
  by (simp add: untouched_def createSubscribe_subscribe_def quiet_call call_no_listeners)

lemma createSubscribe_reset_delegates:
  "delegates K (SubscribeController.reset) w (createSubscribe_reset K w)"
  by (simp add: createSubscribe_reset_def delegates_call)

lemma createSubscribe_reset_untouched:
  "untouched K w (\<lambda>K. createSubscribe_reset K)"
  by (simp add: untouched_def createSubscribe_reset_def quiet_call call_no_listeners)

subsection \<open>createForm\<close>

lemma createForm_effect_shape:
  "createForm_effect K =
     effect_shape K createForm_callback None"
  by (rule ext) (simp add: createForm_effect_def effect_shape_def split: prod.split)

lemma createForm_callback_sets:
  "createForm_callback c state g =
     \<lparr>CreateFormReturn.status = FormState.status state,
       CreateFormReturn.message = FormState.message state,
       CreateFormReturn.error = FormState.error state\<rparr>"
  by (cases g) (simp add: createForm_callback_def)

lemma createForm_new:
  "createForm resolveConfig K options =
     new_instance (construct K (resolveConfig options) (formSlug options))
       \<lparr>CreateFormReturn.status = ''idle'',
        CreateFormReturn.message = None,
        CreateFormReturn.error = None\<rparr>"
  by (simp add: createForm_def controller_new_eq)

lemma createForm_notified:
  "signals (controller_push c state (createForm_run resolveConfig K options (Run # without_dispose es))) =
     \<lparr>CreateFormReturn.status = FormState.status state,
       CreateFormReturn.message = FormState.message state,
       CreateFormReturn.error = FormState.error state\<rparr>"
  unfolding createForm_run_def createForm_new createForm_effect_shape
  by (rule push_ends_with [OF ends_with_mounted]) (rule createForm_callback_sets)

lemma createForm_one_pair: "one_pair (createForm_run resolveConfig K options es)"
  by (simp add: createForm_run_def createForm_new createForm_effect_shape one_pair_exec wired_new_instance)

lemma createForm_constructs:
  "hidden (createForm resolveConfig K options) =
     construct K (resolveConfig options) (formSlug options)"
  "calls (createForm resolveConfig K options) = [New]"
  "hidden (createForm_run resolveConfig (inert K) options (without_push es)) =
     construct K (resolveConfig options) (formSlug options)"
  by (simp_all add: createForm_run_def createForm_new createForm_effect_shape inert_exec)

lemma createForm_effect_adds:
  "listeners (createForm_effect K w) = listeners w @ [(fresh w, createForm_callback)]"
  "cleanups (createForm_effect K w) = cleanups w @ [fresh w]"
  "subscribed_ids (effect_calls (createForm_effect K) w) = [fresh w]"
  by (simp_all add: createForm_effect_shape effect_calls_shape split: option.split)

lemma createForm_teardown:
  "all_unsubscribed (createForm_run resolveConfig K options (es @ [Dispose]))"
  "unsubscribed_ids (calls (createForm_run resolveConfig K options [Run, Dispose])) = [0]"
  by (simp_all add: createForm_run_def createForm_new createForm_effect_shape exec_dispose_unsubscribed
        wired_new_instance mount_unmount_log)

lemma createForm_after_teardown:
  "signals (createForm_run resolveConfig K options (es @ Dispose # es')) =
   signals (createForm_run resolveConfig K options (es @ [Dispose]))"
  unfolding createForm_run_def createForm_new createForm_effect_shape
  by (rule exec_after_dispose [OF wired_new_instance])

lemma createForm_defaults:
  "signals (createForm resolveConfig K options) =
     \<lparr>CreateFormReturn.status = ''idle'',
       CreateFormReturn.message = None,
       CreateFormReturn.error = None\<rparr>"
  "signals (createForm_run resolveConfig (quiet K) options (without_push es)) =
     \<lparr>CreateFormReturn.status = ''idle'',
       CreateFormReturn.message = None,
       CreateFormReturn.error = None\<rparr>"
  by (simp_all add: createForm_run_def createForm_new createForm_effect_shape quiet_exec)

lemma createForm_effect_quiet: "signals (createForm_effect (quiet K) w) = signals w"
  by (simp add: createForm_effect_shape quiet_effect)

lemma createForm_submit_delegates:
  "delegates K (FormController.submit data) w (createForm_submit K data w)"
  by (simp add: createForm_submit_def delegates_call)

lemma createForm_submit_untouched:
  "untouched K w (\<lambda>K. createForm_submit K data)"
  by (simp add: untouched_def createForm_submit_def quiet_call call_no_listeners)

lemma createForm_reset_delegates:
  "delegates K (FormController.reset) w (createForm_reset K w)"
  by (simp add: createForm_reset_def delegates_call)

lemma createForm_reset_untouched:
  "untouched K w (\<lambda>K. createForm_reset K)"
  by (simp add: untouched_def createForm_reset_def quiet_call call_no_listeners)

subsection \<open>createReactions\<close>

lemma createReactions_effect_shape:
  "createReactions_effect K options =
     effect_shape K createReactions_callback (if CreateReactionsOptions.autoFetch options \<noteq> Some False then Some ReactionsController.fetch else None)"
  by (rule ext) (simp add: createReactions_effect_def effect_shape_def split: prod.split)

lemma createReactions_callback_sets:
  "createReactions_callback c state g =
     \<lparr>CreateReactionsReturn.counts = ReactionsState.counts state,
       CreateReactionsReturn.userReactions = ReactionsState.userReactions state,
       CreateReactionsReturn.status = ReactionsState.status state,
       CreateReactionsReturn.error = ReactionsState.error state\<rparr>"
  by (cases g) (simp add: createReactions_callback_def)

lemma createReactions_new:
  "createReactions resolveConfig K options =
     new_instance (construct K (resolveConfig options) (CreateReactionsOptions.contentId options))
       \<lparr>CreateReactionsReturn.counts = Map.empty,
        CreateReactionsReturn.userReactions = [],
        CreateReactionsReturn.status = ''idle'',
        CreateReactionsReturn.error = None\<rparr>"
  by (simp add: createReactions_def controller_new_eq)

lemma createReactions_notified:
  "signals (controller_push c state (createReactions_run resolveConfig K options (Run # without_dispose es))) =
     \<lparr>CreateReactionsReturn.counts = ReactionsState.counts state,
       CreateReactionsReturn.userReactions = ReactionsState.userReactions state,
       CreateReactionsReturn.status = ReactionsState.status state,
       CreateReactionsReturn.error = ReactionsState.error state\<rparr>"
  unfolding createReactions_run_def createReactions_new createReactions_effect_shape
  by (rule push_ends_with [OF ends_with_mounted]) (rule createReactions_callback_sets)

lemma createReactions_one_pair: "one_pair (createReactions_run resolveConfig K options es)"
  by (simp add: createReactions_run_def createReactions_new createReactions_effect_shape one_pair_exec wired_new_instance)

lemma createReactions_constructs:
  "hidden (createReactions resolveConfig K options) =
     construct K (resolveConfig options) (CreateReactionsOptions.contentId options)"
  "calls (createReactions resolveConfig K options) = [New]"
  "hidden (createReactions_run resolveConfig (inert K) options (without_push es)) =
     construct K (resolveConfig options) (CreateReactionsOptions.contentId options)"
  by (simp_all add: createReactions_run_def createReactions_new createReactions_effect_shape inert_exec)

lemma createReactions_effect_adds:
  "listeners (createReactions_effect K options w) = listeners w @ [(fresh w, createReactions_callback)]"
  "cleanups (createReactions_effect K options w) = cleanups w @ [fresh w]"
  "subscribed_ids (effect_calls (createReactions_effect K options) w) = [fresh w]"
  by (simp_all add: createReactions_effect_shape effect_calls_shape split: option.split)

lemma createReactions_teardown:
  "all_unsubscribed (createReactions_run resolveConfig K options (es @ [Dispose]))"
  "unsubscribed_ids (calls (createReactions_run resolveConfig K options [Run, Dispose])) = [0]"
  by (simp_all add: createReactions_run_def createReactions_new createReactions_effect_shape exec_dispose_unsubscribed
        wired_new_instance mount_unmount_log)

lemma createReactions_after_teardown:
  "signals (createReactions_run resolveConfig K options (es @ Dispose # es')) =
   signals (createReactions_run resolveConfig K options (es @ [Dispose]))"
  unfolding createReactions_run_def createReactions_new createReactions_effect_shape
  by (rule exec_after_dispose [OF wired_new_instance])

lemma createReactions_defaults:
  "signals (createReactions resolveConfig K options) =
     \<lparr>CreateReactionsReturn.counts = Map.empty,
       CreateReactionsReturn.userReactions = [],
       CreateReactionsReturn.status = ''idle'',
       CreateReactionsReturn.error = None\<rparr>"
  "signals (createReactions_run resolveConfig (quiet K) options (without_push es)) =
     \<lparr>CreateReactionsReturn.counts = Map.empty,
       CreateReactionsReturn.userReactions = [],
       CreateReactionsReturn.status = ''idle'',
       CreateReactionsReturn.error = None\<rparr>"
  by (simp_all add: createReactions_run_def createReactions_new createReactions_effect_shape quiet_exec)

lemma createReactions_effect_quiet: "signals (createReactions_effect (quiet K) options w) = signals w"
  by (simp add: createReactions_effect_shape quiet_effect)

lemma createReactions_addReaction_delegates:
  "delegates K (ReactionsController.add type) w (createReactions_addReaction K type w)"
  by (simp add: createReactions_addReaction_def delegates_call)

lemma createReactions_addReaction_untouched:
  "untouched K w (\<lambda>K. createReactions_addReaction K type)"
  by (simp add: untouched_def createReactions_addReaction_def quiet_call call_no_listeners)

lemma createReactions_removeReaction_delegates:
  "delegates K (ReactionsController.remove type) w (createReactions_removeReaction K type w)"
  by (simp add: createReactions_removeReaction_def delegates_call)

lemma createReactions_removeReaction_untouched:
  "untouched K w (\<lambda>K. createReactions_removeReaction K type)"
  by (simp add: untouched_def createReactions_removeReaction_def quiet_call call_no_listeners)

lemma createReactions_refresh_delegates:
  "delegates K (ReactionsController.fetch) w (createReactions_refresh K w)"
  by (simp add: createReactions_refresh_def delegates_call)

lemma createReactions_refresh_untouched:
  "untouched K w (\<lambda>K. createReactions_refresh K)"
  by (simp add: untouched_def createReactions_refresh_def quiet_call call_no_listeners)


lemma createReactions_effect_order:
  "CreateReactionsOptions.autoFetch options \<noteq> Some False \<Longrightarrow>
   effect_calls (createReactions_effect K options) w = [Subscribe (fresh w), Method ReactionsController.fetch]"
  by (simp add: createReactions_effect_shape effect_calls_shape)

lemma createReactions_effect_observed:
  "CreateReactionsOptions.autoFetch options \<noteq> Some False \<Longrightarrow>
   fst (on_call K ReactionsController.fetch (snd (on_subscribe K (hidden w)))) = ps @ [(c, state)] \<Longrightarrow>
   signals (createReactions_effect K options w) =
     \<lparr>CreateReactionsReturn.counts = ReactionsState.counts state,
       CreateReactionsReturn.userReactions = ReactionsState.userReactions state,
       CreateReactionsReturn.status = ReactionsState.status state,
       CreateReactionsReturn.error = ReactionsState.error state\<rparr>"
  using effect_shape_signals [of K _ w ps c state "createReactions_callback", OF _ createReactions_callback_sets]
  by (simp add: createReactions_effect_shape)

subsection \<open>createComments\<close>

lemma createComments_effect_shape:
  "createComments_effect K options =
     effect_shape K createComments_callback (if CreateCommentsOptions.autoFetch options \<noteq> Some False then Some CommentsController.fetch else None)"
  by (rule ext) (simp add: createComments_effect_def effect_shape_def split: prod.split)

lemma createComments_callback_sets:
  "createComments_callback c state g =
     \<lparr>CreateCommentsReturn.comments = CommentsState.comments state,
       CreateCommentsReturn.status = CommentsState.status state,
       CreateCommentsReturn.error = CommentsState.error state\<rparr>"
  by (cases g) (simp add: createComments_callback_def)

lemma createComments_new:
  "createComments resolveConfig K options =
     new_instance (construct K (resolveConfig options) (CreateCommentsOptions.contentId options))
       \<lparr>CreateCommentsReturn.comments = [],
        CreateCommentsReturn.status = ''idle'',
        CreateCommentsReturn.error = None\<rparr>"
  by (simp add: createComments_def controller_new_eq)

lemma createComments_notified:
  "signals (controller_push c state (createComments_run resolveConfig K options (Run # without_dispose es))) =
     \<lparr>CreateCommentsReturn.comments = CommentsState.comments state,
       CreateCommentsReturn.status = CommentsState.status state,
       CreateCommentsReturn.error = CommentsState.error state\<rparr>"
  unfolding createComments_run_def createComments_new createComments_effect_shape
  by (rule push_ends_with [OF ends_with_mounted]) (rule createComments_callback_sets)

lemma createComments_one_pair: "one_pair (createComments_run resolveConfig K options es)"
  by (simp add: createComments_run_def createComments_new createComments_effect_shape one_pair_exec wired_new_instance)

lemma createComments_constructs:
  "hidden (createComments resolveConfig K options) =
     construct K (resolveConfig options) (CreateCommentsOptions.contentId options)"
  "calls (createComments resolveConfig K options) = [New]"
  "hidden (createComments_run resolveConfig (inert K) options (without_push es)) =
     construct K (resolveConfig options) (CreateCommentsOptions.contentId options)"
  by (simp_all add: createComments_run_def createComments_new createComments_effect_shape inert_exec)

lemma createComments_effect_adds:
  "listeners (createComments_effect K options w) = listeners w @ [(fresh w, createComments_callback)]"
  "cleanups (createComments_effect K options w) = cleanups w @ [fresh w]"
  "subscribed_ids (effect_calls (createComments_effect K options) w) = [fresh w]"
  by (simp_all add: createComments_effect_shape effect_calls_shape split: option.split)

lemma createComments_teardown:
  "all_unsubscribed (createComments_run resolveConfig K options (es @ [Dispose]))"
  "unsubscribed_ids (calls (createComments_run resolveConfig K options [Run, Dispose])) = [0]"
  by (simp_all add: createComments_run_def createComments_new createComments_effect_shape exec_dispose_unsubscribed
        wired_new_instance mount_unmount_log)

lemma createComments_after_teardown:
  "signals (createComments_run resolveConfig K options (es @ Dispose # es')) =
   signals (createComments_run resolveConfig K options (es @ [Dispose]))"
  unfolding createComments_run_def createComments_new createComments_effect_shape
  by (rule exec_after_dispose [OF wired_new_instance])

lemma createComments_defaults:
  "signals (createComments resolveConfig K options) =
     \<lparr>CreateCommentsReturn.comments = [],
       CreateCommentsReturn.status = ''idle'',
       CreateCommentsReturn.error = None\<rparr>"
  "signals (createComments_run resolveConfig (quiet K) options (without_push es)) =
     \<lparr>CreateCommentsReturn.comments = [],
       CreateCommentsReturn.status = ''idle'',
       CreateCommentsReturn.error = None\<rparr>"
  by (simp_all add: createComments_run_def createComments_new createComments_effect_shape quiet_exec)

lemma createComments_effect_quiet: "signals (createComments_effect (quiet K) options w) = signals w"
  by (simp add: createComments_effect_shape quiet_effect)

lemma createComments_postComment_delegates:
  "delegates K (CommentsController.post author content options) w (createComments_postComment K author content options w)"
  by (simp add: createComments_postComment_def delegates_call)

lemma createComments_postComment_untouched:
  "untouched K w (\<lambda>K. createComments_postComment K author content options)"
  by (simp add: untouched_def createComments_postComment_def quiet_call call_no_listeners)

lemma createComments_refresh_delegates:
  "delegates K (CommentsController.fetch) w (createComments_refresh K w)"
  by (simp add: createComments_refresh_def delegates_call)

lemma createComments_refresh_untouched:
  "untouched K w (\<lambda>K. createComments_refresh K)"
  by (simp add: untouched_def createComments_refresh_def quiet_call call_no_listeners)


lemma createComments_effect_order:
  "CreateCommentsOptions.autoFetch options \<noteq> Some False \<Longrightarrow>
   effect_calls (createComments_effect K options) w = [Subscribe (fresh w), Method CommentsController.fetch]"
  by (simp add: createComments_effect_shape effect_calls_shape)

lemma createComments_effect_observed:
  "CreateCommentsOptions.autoFetch options \<noteq> Some False \<Longrightarrow>
   fst (on_call K CommentsController.fetch (snd (on_subscribe K (hidden w)))) = ps @ [(c, state)] \<Longrightarrow>
   signals (createComments_effect K options w) =
     \<lparr>CreateCommentsReturn.comments = CommentsState.comments state,
       CreateCommentsReturn.status = CommentsState.status state,
       CreateCommentsReturn.error = CommentsState.error state\<rparr>"
  using effect_shape_signals [of K _ w ps c state "createComments_callback", OF _ createComments_callback_sets]
  by (simp add: createComments_effect_shape)

subsection \<open>createWaitlist\<close>

lemma createWaitlist_effect_shape:
  "createWaitlist_effect K =
     effect_shape K createWaitlist_callback None"
  by (rule ext) (simp add: createWaitlist_effect_def effect_shape_def split: prod.split)

lemma createWaitlist_callback_sets:
  "createWaitlist_callback c state g =
     \<lparr>CreateWaitlistReturn.status = WaitlistState.status state,
       CreateWaitlistReturn.message = WaitlistState.message state,
       CreateWaitlistReturn.position = WaitlistState.position state,
       CreateWaitlistReturn.error = WaitlistState.error state\<rparr>"
  by (cases g) (simp add: createWaitlist_callback_def)

lemma createWaitlist_new:
  "createWaitlist resolveConfig K options =
     new_instance (construct K (resolveConfig options) ())
       \<lparr>CreateWaitlistReturn.status = ''idle'',
        CreateWaitlistReturn.message = None,
        CreateWaitlistReturn.position = None,
        CreateWaitlistReturn.error = None\<rparr>"
  by (simp add: createWaitlist_def controller_new_eq)

lemma createWaitlist_notified:
  "signals (controller_push c state (createWaitlist_run resolveConfig K options (Run # without_dispose es))) =
     \<lparr>CreateWaitlistReturn.status = WaitlistState.status state,
       CreateWaitlistReturn.message = WaitlistState.message state,
       CreateWaitlistReturn.position = WaitlistState.position state,
       CreateWaitlistReturn.error = WaitlistState.error state\<rparr>"
  unfolding createWaitlist_run_def createWaitlist_new createWaitlist_effect_shape
  by (rule push_ends_with [OF ends_with_mounted]) (rule createWaitlist_callback_sets)

lemma createWaitlist_one_pair: "one_pair (createWaitlist_run resolveConfig K options es)"
  by (simp add: createWaitlist_run_def createWaitlist_new createWaitlist_effect_shape one_pair_exec wired_new_instance)

lemma createWaitlist_constructs:
  "hidden (createWaitlist resolveConfig K options) =
     construct K (resolveConfig options) ()"
  "calls (createWaitlist resolveConfig K options) = [New]"
  "hidden (createWaitlist_run resolveConfig (inert K) options (without_push es)) =
     construct K (resolveConfig options) ()"
  by (simp_all add: createWaitlist_run_def createWaitlist_new createWaitlist_effect_shape inert_exec)

lemma createWaitlist_effect_adds:
  "listeners (createWaitlist_effect K w) = listeners w @ [(fresh w, createWaitlist_callback)]"
  "cleanups (createWaitlist_effect K w) = cleanups w @ [fresh w]"
  "subscribed_ids (effect_calls (createWaitlist_effect K) w) = [fresh w]"
  by (simp_all add: createWaitlist_effect_shape effect_calls_shape split: option.split)

lemma createWaitlist_teardown:
  "all_unsubscribed (createWaitlist_run resolveConfig K options (es @ [Dispose]))"
  "unsubscribed_ids (calls (createWaitlist_run resolveConfig K options [Run, Dispose])) = [0]"
  by (simp_all add: createWaitlist_run_def createWaitlist_new createWaitlist_effect_shape exec_dispose_unsubscribed
        wired_new_instance mount_unmount_log)

lemma createWaitlist_after_teardown:
  "signals (createWaitlist_run resolveConfig K options (es @ Dispose # es')) =
   signals (createWaitlist_run resolveConfig K options (es @ [Dispose]))"
  unfolding createWaitlist_run_def createWaitlist_new createWaitlist_effect_shape
  by (rule exec_after_dispose [OF wired_new_instance])

lemma createWaitlist_defaults:
  "signals (createWaitlist resolveConfig K options) =
     \<lparr>CreateWaitlistReturn.status = ''idle'',
       CreateWaitlistReturn.message = None,
       CreateWaitlistReturn.position = None,
       CreateWaitlistReturn.error = None\<rparr>"
  "signals (createWaitlist_run resolveConfig (quiet K) options (without_push es)) =
     \<lparr>CreateWaitlistReturn.status = ''idle'',
       CreateWaitlistReturn.message = None,
       CreateWaitlistReturn.position = None,
       CreateWaitlistReturn.error = None\<rparr>"
  by (simp_all add: createWaitlist_run_def createWaitlist_new createWaitlist_effect_shape quiet_exec)

lemma createWaitlist_effect_quiet: "signals (createWaitlist_effect (quiet K) w) = signals w"
  by (simp add: createWaitlist_effect_shape quiet_effect)

lemma createWaitlist_join_delegates:
  "delegates K (WaitlistController.join mail opts) w (createWaitlist_join K mail opts w)"
  by (simp add: createWaitlist_join_def delegates_call)

lemma createWaitlist_join_untouched:
  "untouched K w (\<lambda>K. createWaitlist_join K mail opts)"
  by (simp add: untouched_def createWaitlist_join_def quiet_call call_no_listeners)

lemma createWaitlist_reset_delegates:
  "delegates K (WaitlistController.reset) w (createWaitlist_reset K w)"
  by (simp add: createWaitlist_reset_def delegates_call)

lemma createWaitlist_reset_untouched:
  "untouched K w (\<lambda>K. createWaitlist_reset K)"
  by (simp add: untouched_def createWaitlist_reset_def quiet_call call_no_listeners)

subsection \<open>createViews\<close>

lemma createViews_effect_shape:
  "createViews_effect K options =
     effect_shape K createViews_callback (if autoRecord options \<noteq> Some False then Some ViewCountsController.recordView else None)"
  by (rule ext) (simp add: createViews_effect_def effect_shape_def split: prod.split)

lemma createViews_callback_sets:
  "createViews_callback c state g =
     \<lparr>CreateViewsReturn.views = ViewCountsState.views state,
       CreateViewsReturn.uniqueVisitors = ViewCountsState.uniqueVisitors state,
       CreateViewsReturn.status = ViewCountsState.status state,
       CreateViewsReturn.error = ViewCountsState.error state\<rparr>"
  by (cases g) (simp add: createViews_callback_def)

lemma createViews_new:
  "createViews resolveConfig K options =
     new_instance (construct K (resolveConfig options) (pageId options))
       \<lparr>CreateViewsReturn.views = 0,
        CreateViewsReturn.uniqueVisitors = 0,
        CreateViewsReturn.status = ''idle'',
        CreateViewsReturn.error = None\<rparr>"
  by (simp add: createViews_def controller_new_eq)

lemma createViews_notified:
  "signals (controller_push c state (createViews_run resolveConfig K options (Run # without_dispose es))) =
     \<lparr>CreateViewsReturn.views = ViewCountsState.views state,
       CreateViewsReturn.uniqueVisitors = ViewCountsState.uniqueVisitors state,
       CreateViewsReturn.status = ViewCountsState.status state,
       CreateViewsReturn.error = ViewCountsState.error state\<rparr>"
  unfolding createViews_run_def createViews_new createViews_effect_shape
  by (rule push_ends_with [OF ends_with_mounted]) (rule createViews_callback_sets)

lemma createViews_one_pair: "one_pair (createViews_run resolveConfig K options es)"
  by (simp add: createViews_run_def createViews_new createViews_effect_shape one_pair_exec wired_new_instance)

lemma createViews_constructs:
  "hidden (createViews resolveConfig K options) =
     construct K (resolveConfig options) (pageId options)"
  "calls (createViews resolveConfig K options) = [New]"
  "hidden (createViews_run resolveConfig (inert K) options (without_push es)) =
     construct K (resolveConfig options) (pageId options)"
  by (simp_all add: createViews_run_def createViews_new createViews_effect_shape inert_exec)

lemma createViews_effect_adds:
  "listeners (createViews_effect K options w) = listeners w @ [(fresh w, createViews_callback)]"
  "cleanups (createViews_effect K options w) = cleanups w @ [fresh w]"
  "subscribed_ids (effect_calls (createViews_effect K options) w) = [fresh w]"
  by (simp_all add: createViews_effect_shape effect_calls_shape split: option.split)

lemma createViews_teardown:
  "all_unsubscribed (createViews_run resolveConfig K options (es @ [Dispose]))"
  "unsubscribed_ids (calls (createViews_run resolveConfig K options [Run, Dispose])) = [0]"
  by (simp_all add: createViews_run_def createViews_new createViews_effect_shape exec_dispose_unsubscribed
        wired_new_instance mount_unmount_log)

lemma createViews_after_teardown:
  "signals (createViews_run resolveConfig K options (es @ Dispose # es')) =
   signals (createViews_run resolveConfig K options (es @ [Dispose]))"
  unfolding createViews_run_def createViews_new createViews_effect_shape
  by (rule exec_after_dispose [OF wired_new_instance])

lemma createViews_defaults:
  "signals (createViews resolveConfig K options) =
     \<lparr>CreateViewsReturn.views = 0,
       CreateViewsReturn.uniqueVisitors = 0,
       CreateViewsReturn.status = ''idle'',
       CreateViewsReturn.error = None\<rparr>"
  "signals (createViews_run resolveConfig (quiet K) options (without_push es)) =
     \<lparr>CreateViewsReturn.views = 0,
       CreateViewsReturn.uniqueVisitors = 0,
       CreateViewsReturn.status = ''idle'',
       CreateViewsReturn.error = None\<rparr>"
  by (simp_all add: createViews_run_def createViews_new createViews_effect_shape quiet_exec)

lemma createViews_effect_quiet: "signals (createViews_effect (quiet K) options w) = signals w"
  by (simp add: createViews_effect_shape quiet_effect)

lemma createViews_record_delegates:
  "delegates K (ViewCountsController.recordView) w (createViews_record K w)"
  by (simp add: createViews_record_def delegates_call)

lemma createViews_record_untouched:
  "untouched K w (\<lambda>K. createViews_record K)"
  by (simp add: untouched_def createViews_record_def quiet_call call_no_listeners)

lemma createViews_refresh_delegates:
  "delegates K (ViewCountsController.fetch) w (createViews_refresh K w)"
  by (simp add: createViews_refresh_def delegates_call)

lemma createViews_refresh_untouched:
  "untouched K w (\<lambda>K. createViews_refresh K)"
  by (simp add: untouched_def createViews_refresh_def quiet_call call_no_listeners)


lemma createViews_effect_order:
  "autoRecord options \<noteq> Some False \<Longrightarrow>
   effect_calls (createViews_effect K options) w = [Subscribe (fresh w), Method ViewCountsController.recordView]"
  by (simp add: createViews_effect_shape effect_calls_shape)

lemma createViews_effect_observed:
  "autoRecord options \<noteq> Some False \<Longrightarrow>
   fst (on_call K ViewCountsController.recordView (snd (on_subscribe K (hidden w)))) = ps @ [(c, state)] \<Longrightarrow>
   signals (createViews_effect K options w) =
     \<lparr>CreateViewsReturn.views = ViewCountsState.views state,
       CreateViewsReturn.uniqueVisitors = ViewCountsState.uniqueVisitors state,
       CreateViewsReturn.status = ViewCountsState.status state,
       CreateViewsReturn.error = ViewCountsState.error state\<rparr>"
  using effect_shape_signals [of K _ w ps c state "createViews_callback", OF _ createViews_callback_sets]
  by (simp add: createViews_effect_shape)

subsection \<open>createFeedback\<close>

lemma createFeedback_effect_shape:
  "createFeedback_effect K =
     effect_shape K createFeedback_callback None"
  by (rule ext) (simp add: createFeedback_effect_def effect_shape_def split: prod.split)

lemma createFeedback_callback_sets:
  "createFeedback_callback c state g =
     \<lparr>CreateFeedbackReturn.status = FeedbackState.status state,
       CreateFeedbackReturn.message = FeedbackState.message state,
       CreateFeedbackReturn.error = FeedbackState.error state\<rparr>"
  by (cases g) (simp add: createFeedback_callback_def)

lemma createFeedback_new:
  "createFeedback resolveConfig K options =
     new_instance (construct K (resolveConfig options) ())
       \<lparr>CreateFeedbackReturn.status = ''idle'',
        CreateFeedbackReturn.message = None,
        CreateFeedbackReturn.error = None\<rparr>"
  by (simp add: createFeedback_def controller_new_eq)

lemma createFeedback_notified:
  "signals (controller_push c state (createFeedback_run resolveConfig K options (Run # without_dispose es))) =
     \<lparr>CreateFeedbackReturn.status = FeedbackState.status state,
       CreateFeedbackReturn.message = FeedbackState.message state,
       CreateFeedbackReturn.error = FeedbackState.error state\<rparr>"
  unfolding createFeedback_run_def createFeedback_new createFeedback_effect_shape
  by (rule push_ends_with [OF ends_with_mounted]) (rule createFeedback_callback_sets)

lemma createFeedback_one_pair: "one_pair (createFeedback_run resolveConfig K options es)"
  by (simp add: createFeedback_run_def createFeedback_new createFeedback_effect_shape one_pair_exec wired_new_instance)

lemma createFeedback_constructs:
  "hidden (createFeedback resolveConfig K options) =
     construct K (resolveConfig options) ()"
  "calls (createFeedback resolveConfig K options) = [New]"
  "hidden (createFeedback_run resolveConfig (inert K) options (without_push es)) =
     construct K (resolveConfig options) ()"
  by (simp_all add: createFeedback_run_def createFeedback_new createFeedback_effect_shape inert_exec)

lemma createFeedback_effect_adds:
  "listeners (createFeedback_effect K w) = listeners w @ [(fresh w, createFeedback_callback)]"
  "cleanups (createFeedback_effect K w) = cleanups w @ [fresh w]"
  "subscribed_ids (effect_calls (createFeedback_effect K) w) = [fresh w]"
  by (simp_all add: createFeedback_effect_shape effect_calls_shape split: option.split)

lemma createFeedback_teardown:
  "all_unsubscribed (createFeedback_run resolveConfig K options (es @ [Dispose]))"
  "unsubscribed_ids (calls (createFeedback_run resolveConfig K options [Run, Dispose])) = [0]"
  by (simp_all add: createFeedback_run_def createFeedback_new createFeedback_effect_shape exec_dispose_unsubscribed
        wired_new_instance mount_unmount_log)

lemma createFeedback_after_teardown:
  "signals (createFeedback_run resolveConfig K options (es @ Dispose # es')) =
   signals (createFeedback_run resolveConfig K options (es @ [Dispose]))"
  unfolding createFeedback_run_def createFeedback_new createFeedback_effect_shape
  by (rule exec_after_dispose [OF wired_new_instance])

lemma createFeedback_defaults:
  "signals (createFeedback resolveConfig K options) =
     \<lparr>CreateFeedbackReturn.status = ''idle'',
       CreateFeedbackReturn.message = None,
       CreateFeedbackReturn.error = None\<rparr>"
  "signals (createFeedback_run resolveConfig (quiet K) options (without_push es)) =
     \<lparr>CreateFeedbackReturn.status = ''idle'',
       CreateFeedbackReturn.message = None,
       CreateFeedbackReturn.error = None\<rparr>"
  by (simp_all add: createFeedback_run_def createFeedback_new createFeedback_effect_shape quiet_exec)

lemma createFeedback_effect_quiet: "signals (createFeedback_effect (quiet K) w) = signals w"
  by (simp add: createFeedback_effect_shape quiet_effect)

lemma createFeedback_submit_delegates:
  "delegates K (FeedbackController.submit type content opts) w (createFeedback_submit K type content opts w)"
  by (simp add: createFeedback_submit_def delegates_call)

lemma createFeedback_submit_untouched:
  "untouched K w (\<lambda>K. createFeedback_submit K type content opts)"
  by (simp add: untouched_def createFeedback_submit_def quiet_call call_no_listeners)

lemma createFeedback_reset_delegates:
  "delegates K (FeedbackController.reset) w (createFeedback_reset K w)"
  by (simp add: createFeedback_reset_def delegates_call)

lemma createFeedback_reset_untouched:
  "untouched K w (\<lambda>K. createFeedback_reset K)"
  by (simp add: untouched_def createFeedback_reset_def quiet_call call_no_listeners)

subsection \<open>createPoll\<close>

lemma createPoll_effect_shape:
  "createPoll_effect K options =
     effect_shape K createPoll_callback (if CreatePollOptions.autoFetch options \<noteq> Some False then Some PollController.fetch else None)"
  by (rule ext) (simp add: createPoll_effect_def effect_shape_def split: prod.split)

lemma createPoll_callback_sets:
  "createPoll_callback c state g =
     \<lparr>CreatePollReturn.poll = PollState.poll state,
       CreatePollReturn.status = PollState.status state,
       CreatePollReturn.error = PollState.error state\<rparr>"
  by (cases g) (simp add: createPoll_callback_def)

lemma createPoll_new:
  "createPoll resolveConfig K options =
     new_instance (construct K (resolveConfig options) (slug options))
       \<lparr>CreatePollReturn.poll = None,
        CreatePollReturn.status = ''idle'',
        CreatePollReturn.error = None\<rparr>"
  by (simp add: createPoll_def controller_new_eq)

lemma createPoll_notified:
  "signals (controller_push c state (createPoll_run resolveConfig K options (Run # without_dispose es))) =
     \<lparr>CreatePollReturn.poll = PollState.poll state,
       CreatePollReturn.status = PollState.status state,
       CreatePollReturn.error = PollState.error state\<rparr>"
  unfolding createPoll_run_def createPoll_new createPoll_effect_shape
  by (rule push_ends_with [OF ends_with_mounted]) (rule createPoll_callback_sets)

lemma createPoll_one_pair: "one_pair (createPoll_run resolveConfig K options es)"
  by (simp add: createPoll_run_def createPoll_new createPoll_effect_shape one_pair_exec wired_new_instance)

lemma createPoll_constructs:
  "hidden (createPoll resolveConfig K options) =
     construct K (resolveConfig options) (slug options)"
  "calls (createPoll resolveConfig K options) = [New]"
  "hidden (createPoll_run resolveConfig (inert K) options (without_push es)) =
     construct K (resolveConfig options) (slug options)"
  by (simp_all add: createPoll_run_def createPoll_new createPoll_effect_shape inert_exec)

lemma createPoll_effect_adds:
  "listeners (createPoll_effect K options w) = listeners w @ [(fresh w, createPoll_callback)]"
  "cleanups (createPoll_effect K options w) = cleanups w @ [fresh w]"
  "subscribed_ids (effect_calls (createPoll_effect K options) w) = [fresh w]"
  by (simp_all add: createPoll_effect_shape effect_calls_shape split: option.split)

lemma createPoll_teardown:
  "all_unsubscribed (createPoll_run resolveConfig K options (es @ [Dispose]))"
  "unsubscribed_ids (calls (createPoll_run resolveConfig K options [Run, Dispose])) = [0]"
  by (simp_all add: createPoll_run_def createPoll_new createPoll_effect_shape exec_dispose_unsubscribed
        wired_new_instance mount_unmount_log)

lemma createPoll_after_teardown:
  "signals (createPoll_run resolveConfig K options (es @ Dispose # es')) =
   signals (createPoll_run resolveConfig K options (es @ [Dispose]))"
  unfolding createPoll_run_def createPoll_new createPoll_effect_shape
  by (rule exec_after_dispose [OF wired_new_instance])

lemma createPoll_defaults:
  "signals (createPoll resolveConfig K options) =
     \<lparr>CreatePollReturn.poll = None,
       CreatePollReturn.status = ''idle'',
       CreatePollReturn.error = None\<rparr>"
  "signals (createPoll_run resolveConfig (quiet K) options (without_push es)) =
     \<lparr>CreatePollReturn.poll = None,
       CreatePollReturn.status = ''idle'',
       CreatePollReturn.error = None\<rparr>"
  by (simp_all add: createPoll_run_def createPoll_new createPoll_effect_shape quiet_exec)

lemma createPoll_effect_quiet: "signals (createPoll_effect (quiet K) options w) = signals w"
  by (simp add: createPoll_effect_shape quiet_effect)

lemma createPoll_vote_delegates:
  "delegates K (PollController.vote selectedOptions) w (createPoll_vote K selectedOptions w)"
  by (simp add: createPoll_vote_def delegates_call)

lemma createPoll_vote_untouched:
  "untouched K w (\<lambda>K. createPoll_vote K selectedOptions)"
  by (simp add: untouched_def createPoll_vote_def quiet_call call_no_listeners)

lemma createPoll_refresh_delegates:
  "delegates K (PollController.fetch) w (createPoll_refresh K w)"
  by (simp add: createPoll_refresh_def delegates_call)

lemma createPoll_refresh_untouched:
  "untouched K w (\<lambda>K. createPoll_refresh K)"
  by (simp add: untouched_def createPoll_refresh_def quiet_call call_no_listeners)


lemma createPoll_effect_order:
  "CreatePollOptions.autoFetch options \<noteq> Some False \<Longrightarrow>
   effect_calls (createPoll_effect K options) w = [Subscribe (fresh w), Method PollController.fetch]"
  by (simp add: createPoll_effect_shape effect_calls_shape)

lemma createPoll_effect_observed:
  "CreatePollOptions.autoFetch options \<noteq> Some False \<Longrightarrow>
   fst (on_call K PollController.fetch (snd (on_subscribe K (hidden w)))) = ps @ [(c, state)] \<Longrightarrow>
   signals (createPoll_effect K options w) =
     \<lparr>CreatePollReturn.poll = PollState.poll state,
       CreatePollReturn.status = PollState.status state,
       CreatePollReturn.error = PollState.error state\<rparr>"
  using effect_shape_signals [of K _ w ps c state "createPoll_callback", OF _ createPoll_callback_sets]
  by (simp add: createPoll_effect_shape)

subsection \<open>createAnnouncements\<close>

lemma createAnnouncements_effect_shape:
  "createAnnouncements_effect K options =
     effect_shape K (createAnnouncements_callback K) (if CreateAnnouncementsOptions.autoFetch options \<noteq> Some False then Some AnnouncementsController.fetch else None)"
  by (rule ext) (simp add: createAnnouncements_effect_def effect_shape_def split: prod.split)

lemma createAnnouncements_callback_sets:
  "(createAnnouncements_callback K) c state g =
     \<lparr>CreateAnnouncementsReturn.announcements = getVisibleAnnouncements K c,
       CreateAnnouncementsReturn.status = AnnouncementsState.status state,
       CreateAnnouncementsReturn.error = AnnouncementsState.error state\<rparr>"
  by (cases g) (simp add: createAnnouncements_callback_def)

lemma createAnnouncements_new:
  "createAnnouncements resolveConfig K options =
     new_instance (construct K (resolveConfig options) ())
       \<lparr>CreateAnnouncementsReturn.announcements = [],
        CreateAnnouncementsReturn.status = ''idle'',
        CreateAnnouncementsReturn.error = None\<rparr>"
  by (simp add: createAnnouncements_def controller_new_eq)

lemma createAnnouncements_notified:
  "signals (controller_push c state (createAnnouncements_run resolveConfig K options (Run # without_dispose es))) =
     \<lparr>CreateAnnouncementsReturn.announcements = getVisibleAnnouncements K c,
       CreateAnnouncementsReturn.status = AnnouncementsState.status state,
       CreateAnnouncementsReturn.error = AnnouncementsState.error state\<rparr>"
  unfolding createAnnouncements_run_def createAnnouncements_new createAnnouncements_effect_shape
  by (rule push_ends_with [OF ends_with_mounted]) (rule createAnnouncements_callback_sets)

lemma createAnnouncements_one_pair: "one_pair (createAnnouncements_run resolveConfig K options es)"
  by (simp add: createAnnouncements_run_def createAnnouncements_new createAnnouncements_effect_shape one_pair_exec wired_new_instance)

lemma createAnnouncements_constructs:
  "hidden (createAnnouncements resolveConfig K options) =
     construct K (resolveConfig options) ()"
  "calls (createAnnouncements resolveConfig K options) = [New]"
  "hidden (createAnnouncements_run resolveConfig (inert K) options (without_push es)) =
     construct K (resolveConfig options) ()"
  by (simp_all add: createAnnouncements_run_def createAnnouncements_new createAnnouncements_effect_shape inert_exec)

lemma createAnnouncements_effect_adds:
  "listeners (createAnnouncements_effect K options w) = listeners w @ [(fresh w, (createAnnouncements_callback K))]"
  "cleanups (createAnnouncements_effect K options w) = cleanups w @ [fresh w]"
  "subscribed_ids (effect_calls (createAnnouncements_effect K options) w) = [fresh w]"
  by (simp_all add: createAnnouncements_effect_shape effect_calls_shape split: option.split)

lemma createAnnouncements_teardown:
  "all_unsubscribed (createAnnouncements_run resolveConfig K options (es @ [Dispose]))"
  "unsubscribed_ids (calls (createAnnouncements_run resolveConfig K options [Run, Dispose])) = [0]"
  by (simp_all add: createAnnouncements_run_def createAnnouncements_new createAnnouncements_effect_shape exec_dispose_unsubscribed
        wired_new_instance mount_unmount_log)

lemma createAnnouncements_after_teardown:
  "signals (createAnnouncements_run resolveConfig K options (es @ Dispose # es')) =
   signals (createAnnouncements_run resolveConfig K options (es @ [Dispose]))"
  unfolding createAnnouncements_run_def createAnnouncements_new createAnnouncements_effect_shape
  by (rule exec_after_dispose [OF wired_new_instance])

lemma createAnnouncements_defaults:
  "signals (createAnnouncements resolveConfig K options) =
     \<lparr>CreateAnnouncementsReturn.announcements = [],
       CreateAnnouncementsReturn.status = ''idle'',
       CreateAnnouncementsReturn.error = None\<rparr>"
  "signals (createAnnouncements_run resolveConfig (quiet K) options (without_push es)) =
     \<lparr>CreateAnnouncementsReturn.announcements = [],
       CreateAnnouncementsReturn.status = ''idle'',
       CreateAnnouncementsReturn.error = None\<rparr>"
  by (simp_all add: createAnnouncements_run_def createAnnouncements_new createAnnouncements_effect_shape quiet_exec)

lemma createAnnouncements_effect_quiet: "signals (createAnnouncements_effect (quiet K) options w) = signals w"
  by (simp add: createAnnouncements_effect_shape quiet_effect)

lemma createAnnouncements_dismiss_delegates:
  "delegates K (AnnouncementsController.dismiss announcementId) w (createAnnouncements_dismiss K announcementId w)"
  by (simp add: createAnnouncements_dismiss_def delegates_call)

lemma createAnnouncements_dismiss_untouched:
  "untouched K w (\<lambda>K. createAnnouncements_dismiss K announcementId)"
  by (simp add: untouched_def createAnnouncements_dismiss_def quiet_call call_no_listeners)

lemma createAnnouncements_refresh_delegates:
  "delegates K (AnnouncementsController.fetch) w (createAnnouncements_refresh K w)"
  by (simp add: createAnnouncements_refresh_def delegates_call)

lemma createAnnouncements_refresh_untouched:
  "untouched K w (\<lambda>K. createAnnouncements_refresh K)"
  by (simp add: untouched_def createAnnouncements_refresh_def quiet_call call_no_listeners)


lemma createAnnouncements_effect_order:
  "CreateAnnouncementsOptions.autoFetch options \<noteq> Some False \<Longrightarrow>
   effect_calls (createAnnouncements_effect K options) w = [Subscribe (fresh w), Method AnnouncementsController.fetch]"
  by (simp add: createAnnouncements_effect_shape effect_calls_shape)

lemma createAnnouncements_effect_observed:
  "CreateAnnouncementsOptions.autoFetch options \<noteq> Some False \<Longrightarrow>
   fst (on_call K AnnouncementsController.fetch (snd (on_subscribe K (hidden w)))) = ps @ [(c, state)] \<Longrightarrow>
   signals (createAnnouncements_effect K options w) =
     \<lparr>CreateAnnouncementsReturn.announcements = getVisibleAnnouncements K c,
       CreateAnnouncementsReturn.status = AnnouncementsState.status state,
       CreateAnnouncementsReturn.error = AnnouncementsState.error state\<rparr>"
  using effect_shape_signals [of K _ w ps c state "createAnnouncements_callback K", OF _ createAnnouncements_callback_sets]
  by (simp add: createAnnouncements_effect_shape)

subsection \<open>createAnnouncements: the visible announcements\<close>

lemma createAnnouncements_only_visible:
  "CreateAnnouncementsReturn.announcements (signals (createAnnouncements_run resolveConfig K options es)) = [] \<or>
   (\<exists>c. CreateAnnouncementsReturn.announcements (signals (createAnnouncements_run resolveConfig K options es)) =
        getVisibleAnnouncements K c)"
  unfolding createAnnouncements_run_def createAnnouncements_new createAnnouncements_effect_shape
  by (rule exec_inv [where P = "\<lambda>g. CreateAnnouncementsReturn.announcements g = [] \<or>
        (\<exists>c. CreateAnnouncementsReturn.announcements g = getVisibleAnnouncements K c)"])
     (auto simp add: createAnnouncements_callback_sets)

lemma createAnnouncements_callback_visible:
  "CreateAnnouncementsReturn.announcements (createAnnouncements_callback K c state g) =
     getVisibleAnnouncements K c"
  by (simp add: createAnnouncements_callback_sets)

lemma createAnnouncements_notified_visible:
  "CreateAnnouncementsReturn.announcements
     (signals (controller_push c state
        (createAnnouncements_run resolveConfig K options (Run # without_dispose es)))) =
     getVisibleAnnouncements K c"
  by (simp add: createAnnouncements_notified)


section \<open>The properties\<close>

text \<open>
  C1 (as amended). In every primitive, a notification that the controller pushes while
  the effect's subscription is in place (the effect has run, the owner is not disposed)
  leaves every signal equal to the corresponding field of the notified state: status,
  message, error, counts, userReactions, comments, position, views, uniqueVisitors and
  poll. The one exception is the announcements signal of createAnnouncements, which is
  set to what the controller's getVisibleAnnouncements() answers at that moment.
\<close>

theorem notification_sets_accessors:
  "signals (controller_push c1 s1 (createSubscribe_run rc1 K1 o1 (Run # without_dispose es1))) =
     \<lparr>CreateSubscribeReturn.status = SubscribeState.status s1,
       CreateSubscribeReturn.message = SubscribeState.message s1,
       CreateSubscribeReturn.error = SubscribeState.error s1\<rparr> \<and>
   signals (controller_push c2 s2 (createForm_run rc2 K2 o2 (Run # without_dispose es2))) =
     \<lparr>CreateFormReturn.status = FormState.status s2,
       CreateFormReturn.message = FormState.message s2,
       CreateFormReturn.error = FormState.error s2\<rparr> \<and>
   signals (controller_push c3 s3 (createReactions_run rc3 K3 o3 (Run # without_dispose es3))) =
     \<lparr>CreateReactionsReturn.counts = ReactionsState.counts s3,
       CreateReactionsReturn.userReactions = ReactionsState.userReactions s3,
       CreateReactionsReturn.status = ReactionsState.status s3,
       CreateReactionsReturn.error = ReactionsState.error s3\<rparr> \<and>
   signals (controller_push c4 s4 (createComments_run rc4 K4 o4 (Run # without_dispose es4))) =
     \<lparr>CreateCommentsReturn.comments = CommentsState.comments s4,
       CreateCommentsReturn.status = CommentsState.status s4,
       CreateCommentsReturn.error = CommentsState.error s4\<rparr> \<and>
   signals (controller_push c5 s5 (createWaitlist_run rc5 K5 o5 (Run # without_dispose es5))) =
     \<lparr>CreateWaitlistReturn.status = WaitlistState.status s5,
       CreateWaitlistReturn.message = WaitlistState.message s5,
       CreateWaitlistReturn.position = WaitlistState.position s5,
       CreateWaitlistReturn.error = WaitlistState.error s5\<rparr> \<and>
   signals (controller_push c6 s6 (createViews_run rc6 K6 o6 (Run # without_dispose es6))) =
     \<lparr>CreateViewsReturn.views = ViewCountsState.views s6,
       CreateViewsReturn.uniqueVisitors = ViewCountsState.uniqueVisitors s6,
       CreateViewsReturn.status = ViewCountsState.status s6,
       CreateViewsReturn.error = ViewCountsState.error s6\<rparr> \<and>
   signals (controller_push c7 s7 (createFeedback_run rc7 K7 o7 (Run # without_dispose es7))) =
     \<lparr>CreateFeedbackReturn.status = FeedbackState.status s7,
       CreateFeedbackReturn.message = FeedbackState.message s7,
       CreateFeedbackReturn.error = FeedbackState.error s7\<rparr> \<and>
   signals (controller_push c8 s8 (createPoll_run rc8 K8 o8 (Run # without_dispose es8))) =
     \<lparr>CreatePollReturn.poll = PollState.poll s8,
       CreatePollReturn.status = PollState.status s8,
       CreatePollReturn.error = PollState.error s8\<rparr> \<and>
   signals (controller_push c9 s9 (createAnnouncements_run rc9 K9 o9 (Run # without_dispose es9))) =
     \<lparr>CreateAnnouncementsReturn.announcements = getVisibleAnnouncements K9 c9,
       CreateAnnouncementsReturn.status = AnnouncementsState.status s9,
       CreateAnnouncementsReturn.error = AnnouncementsState.error s9\<rparr>"
  by (intro conjI)
    (rule createSubscribe_notified createForm_notified createReactions_notified
       createComments_notified createWaitlist_notified createViews_notified
       createFeedback_notified createPoll_notified createAnnouncements_notified)+

text \<open>
  C1 as stated fails for createAnnouncements: with a controller that has fetched two
  announcements and has the first one dismissed, the notified state carries both
  announcements and the accessor returns only the second.
\<close>

theorem announcements_accessor_counterexample:
  "CreateAnnouncementsReturn.announcements
     (signals (controller_push (sample_feed, [1]) (sample_state (sample_feed, [1]))
        (createAnnouncements_run (\<lambda>options. ()) sample_AnnouncementsController sample_options [Run]))) =
     [(2, ''release'')] \<and>
   AnnouncementsState.announcements (sample_state (sample_feed, [1])) =
     [(1, ''maintenance''), (2, ''release'')] \<and>
   CreateAnnouncementsReturn.announcements
     (signals (controller_push (sample_feed, [1]) (sample_state (sample_feed, [1]))
        (createAnnouncements_run (\<lambda>options. ()) sample_AnnouncementsController sample_options [Run]))) \<noteq>
     AnnouncementsState.announcements (sample_state (sample_feed, [1]))"
  by (simp add: createAnnouncements_run_def createAnnouncements_def createAnnouncements_effect_def
      createAnnouncements_callback_def controller_new_def exec_def runEffect_def runCleanups_def
      controller_subscribe_def controller_call_def controller_push_def onCleanup_def notify_def
      sample_AnnouncementsController_def sample_options_def sample_state_def sample_feed_def)


text \<open>
  C3. Creating a primitive applies the constructor of the controller class once, to the
  resolved configuration and the primitive's own argument: the hidden state of the new
  instance is the constructor's result and the log holds that one construction. It is
  this controller the instance keeps: as long as the controller itself stands still,
  the hidden state is the constructor's result after every sequence of events.
  Whatever happens to an instance, its log holds exactly one construction, it has at
  most one listener, and the registered cleanups are exactly the unsubscribe functions
  of its listeners. One run of the effect adds exactly one listener (the primitive's
  callback), registers exactly its unsubscribe function and makes exactly one subscribe
  call.
\<close>

theorem one_controller_one_subscription:
  "hidden (createSubscribe rc1 K1 o1) = construct K1 (rc1 o1) () \<and>
   calls (createSubscribe rc1 K1 o1) = [New] \<and>
   hidden (createSubscribe_run rc1 (inert K1) o1 (without_push es1)) =
     construct K1 (rc1 o1) () \<and>
   one_pair (createSubscribe_run rc1 K1 o1 es1) \<and>
   listeners (createSubscribe_effect K1 w1) = listeners w1 @ [(fresh w1, createSubscribe_callback)] \<and>
   cleanups (createSubscribe_effect K1 w1) = cleanups w1 @ [fresh w1] \<and>
   subscribed_ids (effect_calls (createSubscribe_effect K1) w1) = [fresh w1] \<and>
   hidden (createForm rc2 K2 o2) = construct K2 (rc2 o2) (formSlug o2) \<and>
   calls (createForm rc2 K2 o2) = [New] \<and>
   hidden (createForm_run rc2 (inert K2) o2 (without_push es2)) =
     construct K2 (rc2 o2) (formSlug o2) \<and>
   one_pair (createForm_run rc2 K2 o2 es2) \<and>
   listeners (createForm_effect K2 w2) = listeners w2 @ [(fresh w2, createForm_callback)] \<and>
   cleanups (createForm_effect K2 w2) = cleanups w2 @ [fresh w2] \<and>
   subscribed_ids (effect_calls (createForm_effect K2) w2) = [fresh w2] \<and>
   hidden (createReactions rc3 K3 o3) =
     construct K3 (rc3 o3) (CreateReactionsOptions.contentId o3) \<and>
   calls (createReactions rc3 K3 o3) = [New] \<and>
   hidden (createReactions_run rc3 (inert K3) o3 (without_push es3)) =
     construct K3 (rc3 o3) (CreateReactionsOptions.contentId o3) \<and>
   one_pair (createReactions_run rc3 K3 o3 es3) \<and>
   listeners (createReactions_effect K3 o3 w3) = listeners w3 @ [(fresh w3, createReactions_callback)] \<and>
   cleanups (createReactions_effect K3 o3 w3) = cleanups w3 @ [fresh w3] \<and>
   subscribed_ids (effect_calls (createReactions_effect K3 o3) w3) = [fresh w3] \<and>
   hidden (createComments rc4 K4 o4) =
     construct K4 (rc4 o4) (CreateCommentsOptions.contentId o4) \<and>
   calls (createComments rc4 K4 o4) = [New] \<and>
   hidden (createComments_run rc4 (inert K4) o4 (without_push es4)) =
     construct K4 (rc4 o4) (CreateCommentsOptions.contentId o4) \<and>
   one_pair (createComments_run rc4 K4 o4 es4) \<and>
   listeners (createComments_effect K4 o4 w4) = listeners w4 @ [(fresh w4, createComments_callback)] \<and>
   cleanups (createComments_effect K4 o4 w4) = cleanups w4 @ [fresh w4] \<and>
   subscribed_ids (effect_calls (createComments_effect K4 o4) w4) = [fresh w4] \<and>
   hidden (createWaitlist rc5 K5 o5) = construct K5 (rc5 o5) () \<and>
   calls (createWaitlist rc5 K5 o5) = [New] \<and>
   hidden (createWaitlist_run rc5 (inert K5) o5 (without_push es5)) =
     construct K5 (rc5 o5) () \<and>
   one_pair (createWaitlist_run rc5 K5 o5 es5) \<and>
   listeners (createWaitlist_effect K5 w5) = listeners w5 @ [(fresh w5, createWaitlist_callback)] \<and>
   cleanups (createWaitlist_effect K5 w5) = cleanups w5 @ [fresh w5] \<and>
   subscribed_ids (effect_calls (createWaitlist_effect K5) w5) = [fresh w5] \<and>
   hidden (createViews rc6 K6 o6) = construct K6 (rc6 o6) (pageId o6) \<and>
   calls (createViews rc6 K6 o6) = [New] \<and>
   hidden (createViews_run rc6 (inert K6) o6 (without_push es6)) =
     construct K6 (rc6 o6) (pageId o6) \<and>
   one_pair (createViews_run rc6 K6 o6 es6) \<and>
   listeners (createViews_effect K6 o6 w6) = listeners w6 @ [(fresh w6, createViews_callback)] \<and>
   cleanups (createViews_effect K6 o6 w6) = cleanups w6 @ [fresh w6] \<and>
   subscribed_ids (effect_calls (createViews_effect K6 o6) w6) = [fresh w6] \<and>
   hidden (createFeedback rc7 K7 o7) = construct K7 (rc7 o7) () \<and>
   calls (createFeedback rc7 K7 o7) = [New] \<and>
   hidden (createFeedback_run rc7 (inert K7) o7 (without_push es7)) =
     construct K7 (rc7 o7) () \<and>
   one_pair (createFeedback_run rc7 K7 o7 es7) \<and>
   listeners (createFeedback_effect K7 w7) = listeners w7 @ [(fresh w7, createFeedback_callback)] \<and>
   cleanups (createFeedback_effect K7 w7) = cleanups w7 @ [fresh w7] \<and>
   subscribed_ids (effect_calls (createFeedback_effect K7) w7) = [fresh w7] \<and>
   hidden (createPoll rc8 K8 o8) = construct K8 (rc8 o8) (slug o8) \<and>
   calls (createPoll rc8 K8 o8) = [New] \<and>
   hidden (createPoll_run rc8 (inert K8) o8 (without_push es8)) =
     construct K8 (rc8 o8) (slug o8) \<and>
   one_pair (createPoll_run rc8 K8 o8 es8) \<and>
   listeners (createPoll_effect K8 o8 w8) = listeners w8 @ [(fresh w8, createPoll_callback)] \<and>
   cleanups (createPoll_effect K8 o8 w8) = cleanups w8 @ [fresh w8] \<and>
   subscribed_ids (effect_calls (createPoll_effect K8 o8) w8) = [fresh w8] \<and>
   hidden (createAnnouncements rc9 K9 o9) = construct K9 (rc9 o9) () \<and>
   calls (createAnnouncements rc9 K9 o9) = [New] \<and>
   hidden (createAnnouncements_run rc9 (inert K9) o9 (without_push es9)) =
     construct K9 (rc9 o9) () \<and>
   one_pair (createAnnouncements_run rc9 K9 o9 es9) \<and>
   listeners (createAnnouncements_effect K9 o9 w9) = listeners w9 @ [(fresh w9, (createAnnouncements_callback K9))] \<and>
   cleanups (createAnnouncements_effect K9 o9 w9) = cleanups w9 @ [fresh w9] \<and>
   subscribed_ids (effect_calls (createAnnouncements_effect K9 o9) w9) = [fresh w9]"
  by (intro conjI)
    (rule createSubscribe_constructs createSubscribe_one_pair createSubscribe_effect_adds
       createForm_constructs createForm_one_pair createForm_effect_adds
       createReactions_constructs createReactions_one_pair createReactions_effect_adds
       createComments_constructs createComments_one_pair createComments_effect_adds
       createWaitlist_constructs createWaitlist_one_pair createWaitlist_effect_adds
       createViews_constructs createViews_one_pair createViews_effect_adds
       createFeedback_constructs createFeedback_one_pair createFeedback_effect_adds
       createPoll_constructs createPoll_one_pair createPoll_effect_adds
       createAnnouncements_constructs createAnnouncements_one_pair
       createAnnouncements_effect_adds)+

text \<open>
  C4. When the owner is disposed, every subscription the instance has made has been
  unsubscribed and no listener is left (mounting and unmounting once unsubscribes
  subscription 0). Whatever happens afterwards, notifications included, the signals
  keep the values they had at disposal.
\<close>

theorem teardown_unsubscribes:
  "all_unsubscribed (createSubscribe_run rc1 K1 o1 (es1 @ [Dispose])) \<and>
   unsubscribed_ids (calls (createSubscribe_run rc1 K1 o1 [Run, Dispose])) = [0] \<and>
   signals (createSubscribe_run rc1 K1 o1 (es1 @ Dispose # es1')) =
     signals (createSubscribe_run rc1 K1 o1 (es1 @ [Dispose])) \<and>
   all_unsubscribed (createForm_run rc2 K2 o2 (es2 @ [Dispose])) \<and>
   unsubscribed_ids (calls (createForm_run rc2 K2 o2 [Run, Dispose])) = [0] \<and>
   signals (createForm_run rc2 K2 o2 (es2 @ Dispose # es2')) =
     signals (createForm_run rc2 K2 o2 (es2 @ [Dispose])) \<and>
   all_unsubscribed (createReactions_run rc3 K3 o3 (es3 @ [Dispose])) \<and>
   unsubscribed_ids (calls (createReactions_run rc3 K3 o3 [Run, Dispose])) = [0] \<and>
   signals (createReactions_run rc3 K3 o3 (es3 @ Dispose # es3')) =
     signals (createReactions_run rc3 K3 o3 (es3 @ [Dispose])) \<and>
   all_unsubscribed (createComments_run rc4 K4 o4 (es4 @ [Dispose])) \<and>
   unsubscribed_ids (calls (createComments_run rc4 K4 o4 [Run, Dispose])) = [0] \<and>
   signals (createComments_run rc4 K4 o4 (es4 @ Dispose # es4')) =
     signals (createComments_run rc4 K4 o4 (es4 @ [Dispose])) \<and>
   all_unsubscribed (createWaitlist_run rc5 K5 o5 (es5 @ [Dispose])) \<and>
   unsubscribed_ids (calls (createWaitlist_run rc5 K5 o5 [Run, Dispose])) = [0] \<and>
   signals (createWaitlist_run rc5 K5 o5 (es5 @ Dispose # es5')) =
     signals (createWaitlist_run rc5 K5 o5 (es5 @ [Dispose])) \<and>
   all_unsubscribed (createViews_run rc6 K6 o6 (es6 @ [Dispose])) \<and>
   unsubscribed_ids (calls (createViews_run rc6 K6 o6 [Run, Dispose])) = [0] \<and>
   signals (createViews_run rc6 K6 o6 (es6 @ Dispose # es6')) =
     signals (createViews_run rc6 K6 o6 (es6 @ [Dispose])) \<and>
   all_unsubscribed (createFeedback_run rc7 K7 o7 (es7 @ [Dispose])) \<and>
   unsubscribed_ids (calls (createFeedback_run rc7 K7 o7 [Run, Dispose])) = [0] \<and>
   signals (createFeedback_run rc7 K7 o7 (es7 @ Dispose # es7')) =
     signals (createFeedback_run rc7 K7 o7 (es7 @ [Dispose])) \<and>
   all_unsubscribed (createPoll_run rc8 K8 o8 (es8 @ [Dispose])) \<and>
   unsubscribed_ids (calls (createPoll_run rc8 K8 o8 [Run, Dispose])) = [0] \<and>
   signals (createPoll_run rc8 K8 o8 (es8 @ Dispose # es8')) =
     signals (createPoll_run rc8 K8 o8 (es8 @ [Dispose])) \<and>
   all_unsubscribed (createAnnouncements_run rc9 K9 o9 (es9 @ [Dispose])) \<and>
   unsubscribed_ids (calls (createAnnouncements_run rc9 K9 o9 [Run, Dispose])) = [0] \<and>
   signals (createAnnouncements_run rc9 K9 o9 (es9 @ Dispose # es9')) =
     signals (createAnnouncements_run rc9 K9 o9 (es9 @ [Dispose]))"
  by (intro conjI)
    (rule createSubscribe_teardown createSubscribe_after_teardown createForm_teardown
       createForm_after_teardown createReactions_teardown createReactions_after_teardown
       createComments_teardown createComments_after_teardown createWaitlist_teardown
       createWaitlist_after_teardown createViews_teardown createViews_after_teardown
       createFeedback_teardown createFeedback_after_teardown createPoll_teardown
       createPoll_after_teardown createAnnouncements_teardown
       createAnnouncements_after_teardown)+

text \<open>
  C5. The callback of createAnnouncements sets the announcements signal to
  getVisibleAnnouncements() of the controller, whatever the notified state carries; so
  does every notification while subscribed; and at any time the accessor returns the
  initial empty list or a list that getVisibleAnnouncements() has answered.
\<close>

theorem announcements_accessor_shows_visible:
  "CreateAnnouncementsReturn.announcements (createAnnouncements_callback K c state g) =
     getVisibleAnnouncements K c \<and>
   CreateAnnouncementsReturn.announcements
     (signals (controller_push c state
        (createAnnouncements_run resolveConfig K options (Run # without_dispose es)))) =
     getVisibleAnnouncements K c \<and>
   (CreateAnnouncementsReturn.announcements
      (signals (createAnnouncements_run resolveConfig K options es')) = [] \<or>
    (\<exists>c'. CreateAnnouncementsReturn.announcements
        (signals (createAnnouncements_run resolveConfig K options es')) =
        getVisibleAnnouncements K c'))"
  by (intro conjI createAnnouncements_callback_visible createAnnouncements_notified_visible
        createAnnouncements_only_visible)


text \<open>
  C6. Every action is exactly one call of the controller's method with the same
  arguments: subscribe - submit, submit - submit, addReaction - add, removeReaction -
  remove, postComment - post, join - join, record - record, vote - vote, dismiss -
  dismiss, refresh - fetch, reset - reset. hasVoted() returns what the controller's
  hasVoted() answers.
\<close>

theorem actions_delegate:
  "delegates K1 (SubscribeController.submit mail1) w1 (createSubscribe_subscribe K1 mail1 w1) \<and>
   delegates K1 (SubscribeController.reset) w1 (createSubscribe_reset K1 w1) \<and>
   delegates K2 (FormController.submit data2) w2 (createForm_submit K2 data2 w2) \<and>
   delegates K2 (FormController.reset) w2 (createForm_reset K2 w2) \<and>
   delegates K3 (ReactionsController.add type3) w3 (createReactions_addReaction K3 type3 w3) \<and>
   delegates K3 (ReactionsController.remove type3) w3 (createReactions_removeReaction K3 type3 w3) \<and>
   delegates K3 (ReactionsController.fetch) w3 (createReactions_refresh K3 w3) \<and>
   delegates K4 (CommentsController.post author4 content4 options4) w4 (createComments_postComment K4 author4 content4 options4 w4) \<and>
   delegates K4 (CommentsController.fetch) w4 (createComments_refresh K4 w4) \<and>
   delegates K5 (WaitlistController.join mail5 opts5) w5 (createWaitlist_join K5 mail5 opts5 w5) \<and>
   delegates K5 (WaitlistController.reset) w5 (createWaitlist_reset K5 w5) \<and>
   delegates K6 (ViewCountsController.recordView) w6 (createViews_record K6 w6) \<and>
   delegates K6 (ViewCountsController.fetch) w6 (createViews_refresh K6 w6) \<and>
   delegates K7 (FeedbackController.submit type7 content7 opts7) w7 (createFeedback_submit K7 type7 content7 opts7 w7) \<and>
   delegates K7 (FeedbackController.reset) w7 (createFeedback_reset K7 w7) \<and>
   delegates K8 (PollController.vote selectedOptions8) w8 (createPoll_vote K8 selectedOptions8 w8) \<and>
   delegates K8 (PollController.fetch) w8 (createPoll_refresh K8 w8) \<and>
   delegates K9 (AnnouncementsController.dismiss announcementId9) w9 (createAnnouncements_dismiss K9 announcementId9 w9) \<and>
   delegates K9 (AnnouncementsController.fetch) w9 (createAnnouncements_refresh K9 w9) \<and>
   createPoll_hasVoted K8 w8 = hasVoted K8 (hidden w8)"
  by (intro conjI)
    (rule createSubscribe_subscribe_delegates createSubscribe_reset_delegates
       createForm_submit_delegates createForm_reset_delegates
       createReactions_addReaction_delegates createReactions_removeReaction_delegates
       createReactions_refresh_delegates createComments_postComment_delegates
       createComments_refresh_delegates createWaitlist_join_delegates
       createWaitlist_reset_delegates createViews_record_delegates
       createViews_refresh_delegates createFeedback_submit_delegates
       createFeedback_reset_delegates createPoll_vote_delegates createPoll_refresh_delegates
       createAnnouncements_dismiss_delegates createAnnouncements_refresh_delegates
       createPoll_hasVoted_def)+

text \<open>
  C8. A new instance has status "idle", message, error, position and poll null, counts
  the empty record, userReactions, comments and announcements the empty list, views
  and uniqueVisitors 0; and the accessors keep these values for as long as no
  notification arrives, whatever the runtime and the user do.
\<close>

theorem initial_accessor_values:
  "signals (createSubscribe rc1 K1 o1) =
     \<lparr>CreateSubscribeReturn.status = ''idle'',
       CreateSubscribeReturn.message = None,
       CreateSubscribeReturn.error = None\<rparr> \<and>
   signals (createSubscribe_run rc1 (quiet K1) o1 (without_push es1)) =
     \<lparr>CreateSubscribeReturn.status = ''idle'',
       CreateSubscribeReturn.message = None,
       CreateSubscribeReturn.error = None\<rparr> \<and>
   signals (createForm rc2 K2 o2) =
     \<lparr>CreateFormReturn.status = ''idle'',
       CreateFormReturn.message = None,
       CreateFormReturn.error = None\<rparr> \<and>
   signals (createForm_run rc2 (quiet K2) o2 (without_push es2)) =
     \<lparr>CreateFormReturn.status = ''idle'',
       CreateFormReturn.message = None,
       CreateFormReturn.error = None\<rparr> \<and>
   signals (createReactions rc3 K3 o3) =
     \<lparr>CreateReactionsReturn.counts = Map.empty,
       CreateReactionsReturn.userReactions = [],
       CreateReactionsReturn.status = ''idle'',
       CreateReactionsReturn.error = None\<rparr> \<and>
   signals (createReactions_run rc3 (quiet K3) o3 (without_push es3)) =
     \<lparr>CreateReactionsReturn.counts = Map.empty,
       CreateReactionsReturn.userReactions = [],
       CreateReactionsReturn.status = ''idle'',
       CreateReactionsReturn.error = None\<rparr> \<and>
   signals (createComments rc4 K4 o4) =
     \<lparr>CreateCommentsReturn.comments = [],
       CreateCommentsReturn.status = ''idle'',
       CreateCommentsReturn.error = None\<rparr> \<and>
   signals (createComments_run rc4 (quiet K4) o4 (without_push es4)) =
     \<lparr>CreateCommentsReturn.comments = [],
       CreateCommentsReturn.status = ''idle'',
       CreateCommentsReturn.error = None\<rparr> \<and>
   signals (createWaitlist rc5 K5 o5) =
     \<lparr>CreateWaitlistReturn.status = ''idle'',
       CreateWaitlistReturn.message = None,
       CreateWaitlistReturn.position = None,
       CreateWaitlistReturn.error = None\<rparr> \<and>
   signals (createWaitlist_run rc5 (quiet K5) o5 (without_push es5)) =
     \<lparr>CreateWaitlistReturn.status = ''idle'',
       CreateWaitlistReturn.message = None,
       CreateWaitlistReturn.position = None,
       CreateWaitlistReturn.error = None\<rparr> \<and>
   signals (createViews rc6 K6 o6) =
     \<lparr>CreateViewsReturn.views = 0,
       CreateViewsReturn.uniqueVisitors = 0,
       CreateViewsReturn.status = ''idle'',
       CreateViewsReturn.error = None\<rparr> \<and>
   signals (createViews_run rc6 (quiet K6) o6 (without_push es6)) =
     \<lparr>CreateViewsReturn.views = 0,
       CreateViewsReturn.uniqueVisitors = 0,
       CreateViewsReturn.status = ''idle'',
       CreateViewsReturn.error = None\<rparr> \<and>
   signals (createFeedback rc7 K7 o7) =
     \<lparr>CreateFeedbackReturn.status = ''idle'',
       CreateFeedbackReturn.message = None,
       CreateFeedbackReturn.error = None\<rparr> \<and>
   signals (createFeedback_run rc7 (quiet K7) o7 (without_push es7)) =
     \<lparr>CreateFeedbackReturn.status = ''idle'',
       CreateFeedbackReturn.message = None,
       CreateFeedbackReturn.error = None\<rparr> \<and>
   signals (createPoll rc8 K8 o8) =
     \<lparr>CreatePollReturn.poll = None,
       CreatePollReturn.status = ''idle'',
       CreatePollReturn.error = None\<rparr> \<and>
   signals (createPoll_run rc8 (quiet K8) o8 (without_push es8)) =
     \<lparr>CreatePollReturn.poll = None,
       CreatePollReturn.status = ''idle'',
       CreatePollReturn.error = None\<rparr> \<and>
   signals (createAnnouncements rc9 K9 o9) =
     \<lparr>CreateAnnouncementsReturn.announcements = [],
       CreateAnnouncementsReturn.status = ''idle'',
       CreateAnnouncementsReturn.error = None\<rparr> \<and>
   signals (createAnnouncements_run rc9 (quiet K9) o9 (without_push es9)) =
     \<lparr>CreateAnnouncementsReturn.announcements = [],
       CreateAnnouncementsReturn.status = ''idle'',
       CreateAnnouncementsReturn.error = None\<rparr>"
  by (intro conjI)
    (rule createSubscribe_defaults createForm_defaults createReactions_defaults
       createComments_defaults createWaitlist_defaults createViews_defaults
       createFeedback_defaults createPoll_defaults createAnnouncements_defaults)+

text \<open>
  C9. In createReactions, createComments, createViews, createPoll and
  createAnnouncements, when the option is not false, one run of the effect subscribes
  first and makes the fetch (record) call second; and when the controller pushes
  notifications during that call, the signals after the run are those of the last one.
\<close>

theorem subscribe_before_auto_call:
  "(CreateReactionsOptions.autoFetch o3 \<noteq> Some False \<longrightarrow>
      effect_calls (createReactions_effect K3 o3) w3 =
        [Subscribe (fresh w3), Method ReactionsController.fetch]) \<and>
   (CreateReactionsOptions.autoFetch o3 \<noteq> Some False \<and>
    fst (on_call K3 ReactionsController.fetch (snd (on_subscribe K3 (hidden w3)))) =
      ps3 @ [(c3, s3)] \<longrightarrow>
      signals (createReactions_effect K3 o3 w3) =
        \<lparr>CreateReactionsReturn.counts = ReactionsState.counts s3,
          CreateReactionsReturn.userReactions = ReactionsState.userReactions s3,
          CreateReactionsReturn.status = ReactionsState.status s3,
          CreateReactionsReturn.error = ReactionsState.error s3\<rparr>) \<and>
   (CreateCommentsOptions.autoFetch o4 \<noteq> Some False \<longrightarrow>
      effect_calls (createComments_effect K4 o4) w4 =
        [Subscribe (fresh w4), Method CommentsController.fetch]) \<and>
   (CreateCommentsOptions.autoFetch o4 \<noteq> Some False \<and>
    fst (on_call K4 CommentsController.fetch (snd (on_subscribe K4 (hidden w4)))) =
      ps4 @ [(c4, s4)] \<longrightarrow>
      signals (createComments_effect K4 o4 w4) =
        \<lparr>CreateCommentsReturn.comments = CommentsState.comments s4,
          CreateCommentsReturn.status = CommentsState.status s4,
          CreateCommentsReturn.error = CommentsState.error s4\<rparr>) \<and>
   (autoRecord o6 \<noteq> Some False \<longrightarrow>
      effect_calls (createViews_effect K6 o6) w6 =
        [Subscribe (fresh w6), Method ViewCountsController.recordView]) \<and>
   (autoRecord o6 \<noteq> Some False \<and>
    fst (on_call K6 ViewCountsController.recordView (snd (on_subscribe K6 (hidden w6)))) =
      ps6 @ [(c6, s6)] \<longrightarrow>
      signals (createViews_effect K6 o6 w6) =
        \<lparr>CreateViewsReturn.views = ViewCountsState.views s6,
          CreateViewsReturn.uniqueVisitors = ViewCountsState.uniqueVisitors s6,
          CreateViewsReturn.status = ViewCountsState.status s6,
          CreateViewsReturn.error = ViewCountsState.error s6\<rparr>) \<and>
   (CreatePollOptions.autoFetch o8 \<noteq> Some False \<longrightarrow>
      effect_calls (createPoll_effect K8 o8) w8 =
        [Subscribe (fresh w8), Method PollController.fetch]) \<and>
   (CreatePollOptions.autoFetch o8 \<noteq> Some False \<and>
    fst (on_call K8 PollController.fetch (snd (on_subscribe K8 (hidden w8)))) =
      ps8 @ [(c8, s8)] \<longrightarrow>
      signals (createPoll_effect K8 o8 w8) =
        \<lparr>CreatePollReturn.poll = PollState.poll s8,
          CreatePollReturn.status = PollState.status s8,
          CreatePollReturn.error = PollState.error s8\<rparr>) \<and>
   (CreateAnnouncementsOptions.autoFetch o9 \<noteq> Some False \<longrightarrow>
      effect_calls (createAnnouncements_effect K9 o9) w9 =
        [Subscribe (fresh w9), Method AnnouncementsController.fetch]) \<and>
   (CreateAnnouncementsOptions.autoFetch o9 \<noteq> Some False \<and>
    fst (on_call K9 AnnouncementsController.fetch (snd (on_subscribe K9 (hidden w9)))) =
      ps9 @ [(c9, s9)] \<longrightarrow>
      signals (createAnnouncements_effect K9 o9 w9) =
        \<lparr>CreateAnnouncementsReturn.announcements = getVisibleAnnouncements K9 c9,
          CreateAnnouncementsReturn.status = AnnouncementsState.status s9,
          CreateAnnouncementsReturn.error = AnnouncementsState.error s9\<rparr>)"
  by (intro conjI impI; (elim conjE)?;
      (rule createReactions_effect_order createReactions_effect_observed createComments_effect_order
         createComments_effect_observed createViews_effect_order
         createViews_effect_observed createPoll_effect_order createPoll_effect_observed
         createAnnouncements_effect_order createAnnouncements_effect_observed);
      assumption)

theorem subscribe_before_auto_call_witness:
  "effect_calls (createReactions_effect (sample_controller sample_ReactionsState) sample_ReactionsOptions)
     (createReactions (\<lambda>options. ()) (sample_controller sample_ReactionsState) sample_ReactionsOptions) =
     [Subscribe 0, Method ReactionsController.fetch] \<and>
   signals (createReactions_effect (sample_controller sample_ReactionsState) sample_ReactionsOptions
     (createReactions (\<lambda>options. ()) (sample_controller sample_ReactionsState) sample_ReactionsOptions)) =
     \<lparr>CreateReactionsReturn.counts = [''like'' \<mapsto> 2],
      CreateReactionsReturn.userReactions = [''like''],
      CreateReactionsReturn.status = ''success'',
      CreateReactionsReturn.error = None\<rparr> \<and>
   effect_calls (createComments_effect (sample_controller sample_CommentsState) sample_CommentsOptions)
     (createComments (\<lambda>options. ()) (sample_controller sample_CommentsState) sample_CommentsOptions) =
     [Subscribe 0, Method CommentsController.fetch] \<and>
   signals (createComments_effect (sample_controller sample_CommentsState) sample_CommentsOptions
     (createComments (\<lambda>options. ()) (sample_controller sample_CommentsState) sample_CommentsOptions)) =
     \<lparr>CreateCommentsReturn.comments = [''first''],
      CreateCommentsReturn.status = ''success'',
      CreateCommentsReturn.error = None\<rparr> \<and>
   effect_calls (createViews_effect (sample_controller sample_ViewCountsState) sample_ViewsOptions)
     (createViews (\<lambda>options. ()) (sample_controller sample_ViewCountsState) sample_ViewsOptions) =
     [Subscribe 0, Method ViewCountsController.recordView] \<and>
   signals (createViews_effect (sample_controller sample_ViewCountsState) sample_ViewsOptions
     (createViews (\<lambda>options. ()) (sample_controller sample_ViewCountsState) sample_ViewsOptions)) =
     \<lparr>CreateViewsReturn.views = 10,
      CreateViewsReturn.uniqueVisitors = 4,
      CreateViewsReturn.status = ''success'',
      CreateViewsReturn.error = None\<rparr> \<and>
   effect_calls (createPoll_effect (sample_PollController sample_PollState) sample_PollOptions)
     (createPoll (\<lambda>options. ()) (sample_PollController sample_PollState) sample_PollOptions) =
     [Subscribe 0, Method PollController.fetch] \<and>
   signals (createPoll_effect (sample_PollController sample_PollState) sample_PollOptions
     (createPoll (\<lambda>options. ()) (sample_PollController sample_PollState) sample_PollOptions)) =
     \<lparr>CreatePollReturn.poll = Some ''favorite-framework'',
      CreatePollReturn.status = ''success'',
      CreatePollReturn.error = None\<rparr> \<and>
   effect_calls (createAnnouncements_effect sample_AnnouncementsController sample_options)
     (createAnnouncements (\<lambda>options. ()) sample_AnnouncementsController sample_options) =
     [Subscribe 0, Method AnnouncementsController.fetch] \<and>
   signals (createAnnouncements_effect sample_AnnouncementsController sample_options
     (createAnnouncements (\<lambda>options. ()) sample_AnnouncementsController sample_options)) =
     \<lparr>CreateAnnouncementsReturn.announcements = [(1, ''maintenance''), (2, ''release'')],
      CreateAnnouncementsReturn.status = ''success'',
      CreateAnnouncementsReturn.error = None\<rparr>"
  using subscribe_before_auto_call
    [where ?K3.0 = "sample_controller sample_ReactionsState" and ?o3.0 = sample_ReactionsOptions
       and ?w3.0 = "createReactions (\<lambda>options. ()) (sample_controller sample_ReactionsState) sample_ReactionsOptions"
       and ?ps3.0 = "[]" and ?c3.0 = 1 and ?s3.0 = sample_ReactionsState
       and ?K4.0 = "sample_controller sample_CommentsState" and ?o4.0 = sample_CommentsOptions
       and ?w4.0 = "createComments (\<lambda>options. ()) (sample_controller sample_CommentsState) sample_CommentsOptions"
       and ?ps4.0 = "[]" and ?c4.0 = 1 and ?s4.0 = sample_CommentsState
       and ?K6.0 = "sample_controller sample_ViewCountsState" and ?o6.0 = sample_ViewsOptions
       and ?w6.0 = "createViews (\<lambda>options. ()) (sample_controller sample_ViewCountsState) sample_ViewsOptions"
       and ?ps6.0 = "[]" and ?c6.0 = 1 and ?s6.0 = sample_ViewCountsState
       and ?K8.0 = "sample_PollController sample_PollState" and ?o8.0 = sample_PollOptions
       and ?w8.0 = "createPoll (\<lambda>options. ()) (sample_PollController sample_PollState) sample_PollOptions"
       and ?ps8.0 = "[]" and ?c8.0 = 1 and ?s8.0 = sample_PollState
       and ?K9.0 = sample_AnnouncementsController and ?o9.0 = sample_options
       and ?w9.0 = "createAnnouncements (\<lambda>options. ()) sample_AnnouncementsController sample_options"
       and ?ps9.0 = "[]" and ?c9.0 = "(sample_feed, [])" and ?s9.0 = "sample_state (sample_feed, [])"]
  by (simp add: createReactions_def createComments_def createViews_def createPoll_def
      createAnnouncements_def controller_new_def sample_controller_def sample_PollController_def
      sample_AnnouncementsController_def sample_ReactionsState_def sample_CommentsState_def
      sample_ViewCountsState_def sample_PollState_def sample_ReactionsOptions_def
      sample_CommentsOptions_def sample_ViewsOptions_def sample_PollOptions_def
      sample_options_def sample_state_def sample_feed_def)


text \<open>
  C10. No action and no effect body writes a signal itself: with a controller that
  pushes nothing every action and every effect run leaves all signals as they are, and
  so does every action while nothing is subscribed. (By C6 the signals after an action
  are what the listeners made of the controller's notifications.)
\<close>

theorem signals_change_only_by_notification:
  "untouched K1 w1 (\<lambda>K. createSubscribe_subscribe K mail1) \<and>
   untouched K1 w1 (\<lambda>K. createSubscribe_reset K) \<and>
   signals (createSubscribe_effect (quiet K1) w1) = signals w1 \<and>
   untouched K2 w2 (\<lambda>K. createForm_submit K data2) \<and>
   untouched K2 w2 (\<lambda>K. createForm_reset K) \<and>
   signals (createForm_effect (quiet K2) w2) = signals w2 \<and>
   untouched K3 w3 (\<lambda>K. createReactions_addReaction K type3) \<and>
   untouched K3 w3 (\<lambda>K. createReactions_removeReaction K type3) \<and>
   untouched K3 w3 (\<lambda>K. createReactions_refresh K) \<and>
   signals (createReactions_effect (quiet K3) o3 w3) = signals w3 \<and>
   untouched K4 w4 (\<lambda>K. createComments_postComment K author4 content4 options4) \<and>
   untouched K4 w4 (\<lambda>K. createComments_refresh K) \<and>
   signals (createComments_effect (quiet K4) o4 w4) = signals w4 \<and>
   untouched K5 w5 (\<lambda>K. createWaitlist_join K mail5 opts5) \<and>
   untouched K5 w5 (\<lambda>K. createWaitlist_reset K) \<and>
   signals (createWaitlist_effect (quiet K5) w5) = signals w5 \<and>
   untouched K6 w6 (\<lambda>K. createViews_record K) \<and>
   untouched K6 w6 (\<lambda>K. createViews_refresh K) \<and>
   signals (createViews_effect (quiet K6) o6 w6) = signals w6 \<and>
   untouched K7 w7 (\<lambda>K. createFeedback_submit K type7 content7 opts7) \<and>
   untouched K7 w7 (\<lambda>K. createFeedback_reset K) \<and>
   signals (createFeedback_effect (quiet K7) w7) = signals w7 \<and>
   untouched K8 w8 (\<lambda>K. createPoll_vote K selectedOptions8) \<and>
   untouched K8 w8 (\<lambda>K. createPoll_refresh K) \<and>
   signals (createPoll_effect (quiet K8) o8 w8) = signals w8 \<and>
   untouched K9 w9 (\<lambda>K. createAnnouncements_dismiss K announcementId9) \<and>
   untouched K9 w9 (\<lambda>K. createAnnouncements_refresh K) \<and>
   signals (createAnnouncements_effect (quiet K9) o9 w9) = signals w9"
  by (intro conjI)
    (rule createSubscribe_subscribe_untouched createSubscribe_reset_untouched
       createSubscribe_effect_quiet createForm_submit_untouched createForm_reset_untouched
       createForm_effect_quiet createReactions_addReaction_untouched
       createReactions_removeReaction_untouched createReactions_refresh_untouched
       createReactions_effect_quiet createComments_postComment_untouched
       createComments_refresh_untouched createComments_effect_quiet
       createWaitlist_join_untouched createWaitlist_reset_untouched
       createWaitlist_effect_quiet createViews_record_untouched
       createViews_refresh_untouched createViews_effect_quiet
       createFeedback_submit_untouched createFeedback_reset_untouched
       createFeedback_effect_quiet createPoll_vote_untouched createPoll_refresh_untouched
       createPoll_effect_quiet createAnnouncements_dismiss_untouched
       createAnnouncements_refresh_untouched createAnnouncements_effect_quiet)+

end
